theory Spec2Isabelle
  imports Complex_Main "HOL-Library.Multiset" "HOL-Library.Char_ord" "HOL-Library.List_Lexorder"
    "HOL-Library.Product_Lexorder"
begin

section \<open>Values exchanged with the task API\<close>

text \<open>
  The backend is an express router (\<open>routes/tasks.js\<close>) in front of a \<open>Database\<close> class
  (\<open>database/database.js\<close>) that issues SQL statements against one table, \<open>tasks\<close>.
  A field of a request body is a JSON string or JSON \<open>null\<close>, or it is missing
  (\<open>undefined\<close> in the JavaScript, \<open>None\<close> here). Numbers, booleans, arrays and objects
  as field values are outside this development. Characters stand for code points
  below 256.
\<close>

datatype body_value = Null | Str string

record payload =
  title :: "body_value option"
  description :: "body_value option"
  status :: "body_value option"
  due_date :: "body_value option"

text \<open>
  JSON values as they appear in response bodies: \<open>JNum\<close> is an id or a count, \<open>JReal\<close> a
  number read from a date column. SQL \<open>NULL\<close> reads back as \<open>JNull\<close>.
\<close>

datatype jsval = JNull | JBool bool | JNum nat | JReal real | JStr string

type_synonym jsobj = "(string \<times> jsval) list"

datatype jsdata = Obj jsobj | Arr "jsobj list"

definition json_of :: "body_value \<Rightarrow> jsval" where
  "json_of v = (case v of Null \<Rightarrow> JNull | Str s \<Rightarrow> JStr s)"

text \<open>\<open>CURRENT_TIMESTAMP\<close> is read from the engine's clock; the text it yields is passed in.\<close>

type_synonym timestamp = string

text \<open>A rejected promise carries a JavaScript \<open>Error\<close>; the routes inspect its \<open>message\<close>.\<close>

datatype js_error = Error (message_of: string)

section \<open>The \<open>tasks\<close> table\<close>

text \<open>
  One row of \<open>CREATE TABLE tasks\<close>, holding for each column the value that was bound
  into it. The columns keep their names behind the prefix \<open>row_\<close>; \<open>description\<close> is the
  only column that may hold \<open>NULL\<close>.
\<close>

record task_row =
  row_id :: nat
  row_title :: string
  row_description :: "string option"
  row_status :: string
  row_due_date :: string
  created_at :: timestamp
  updated_at :: timestamp

text \<open>
  The columns \<open>due_date\<close>, \<open>created_at\<close> and \<open>updated_at\<close> are declared \<open>DATETIME\<close>, which
  gives them numeric affinity: a text that the engine reads as a number is kept as that
  number, any other text as text. Which texts the engine reads as numbers, and as which,
  is the engine's business; it is the parameter \<open>numeric\<close> throughout. A number-like value
  reads back as a number, and \<open>ORDER BY\<close> puts numbers, by value, before texts, by bytes.
\<close>

definition of_datetime :: "(string \<Rightarrow> real option) \<Rightarrow> string \<Rightarrow> jsval" where
  "of_datetime numeric s = (case numeric s of Some x \<Rightarrow> JReal x | None \<Rightarrow> JStr s)"

definition datetime_key :: "(string \<Rightarrow> real option) \<Rightarrow> string \<Rightarrow> bool \<times> real \<times> string" where
  "datetime_key numeric s = (case numeric s of Some x \<Rightarrow> (False, x, []) | None \<Rightarrow> (True, 0, s))"

text \<open>
  A method of the store is called with an id: the JavaScript value that was passed, which
  the method echoes in its result, and the rowid that the engine's comparison \<open>id = ?\<close>
  reads from that value, if it reads one.
\<close>

datatype id_arg = Id (rowid: "nat option") (passed: jsval)

text \<open>The statements the \<open>Database\<close> class runs, kept as a trace of what reached the engine.\<close>

datatype sql_statement =
  INSERT | SELECT_BY_ID id_arg | SELECT_ALL | UPDATE_STATUS id_arg | UPDATE_FIELDS id_arg | DELETE id_arg

text \<open>
  The store: the rows in rowid order, the \<open>sqlite_sequence\<close> entry that \<open>AUTOINCREMENT\<close>
  keeps for the table (the largest rowid ever handed out), and the trace of statements.
\<close>

record database =
  rows :: "task_row list"
  sqlite_sequence :: nat
  executed :: "sql_statement list"

definition initializeTables :: database where
  "initializeTables = \<lparr>rows = [], sqlite_sequence = 0, executed = []\<rparr>"

definition valid_statuses :: "string list" where
  "valid_statuses = [''pending'', ''in_progress'', ''completed'', ''cancelled'']"

definition run :: "sql_statement \<Rightarrow> database \<Rightarrow> database" where
  "run stmt db = db\<lparr>executed := executed db @ [stmt]\<rparr>"

definition max_rowid :: "task_row list \<Rightarrow> nat" where
  "max_rowid rs = foldr max (map row_id rs) 0"

definition of_nullable :: "string option \<Rightarrow> jsval" where
  "of_nullable v = (case v of None \<Rightarrow> JNull | Some s \<Rightarrow> JStr s)"

text \<open>\<open>SELECT *\<close> hands a row back as an object with one key per column.\<close>

definition row_object :: "(string \<Rightarrow> real option) \<Rightarrow> task_row \<Rightarrow> jsobj" where
  "row_object numeric r =
     [(''id'', JNum (row_id r)), (''title'', JStr (row_title r)),
      (''description'', of_nullable (row_description r)), (''status'', JStr (row_status r)),
      (''due_date'', of_datetime numeric (row_due_date r)),
      (''created_at'', of_datetime numeric (created_at r)),
      (''updated_at'', of_datetime numeric (updated_at r))]"

text \<open>What binding a request value into a column stores: \<open>undefined\<close> and \<open>null\<close> store \<open>NULL\<close>.\<close>

definition bound :: "body_value option \<Rightarrow> string option" where
  "bound v = (case v of None \<Rightarrow> None | Some Null \<Rightarrow> None | Some (Str s) \<Rightarrow> Some s)"

text \<open>
  \<open>createTask\<close>: \<open>INSERT INTO tasks (title, description, status, due_date)\<close>. The columns
  \<open>title\<close>, \<open>status\<close> and \<open>due_date\<close> are \<open>NOT NULL\<close>, \<open>status\<close> has the \<open>CHECK\<close>
  constraint, \<open>id\<close> is \<open>AUTOINCREMENT\<close> (one more than the largest rowid ever used) and
  both timestamps default to \<open>CURRENT_TIMESTAMP\<close>. An undefined description is bound as
  \<open>null\<close>. The promise resolves to \<open>{id, title, description, status, due_date}\<close>, the
  values being the ones that were passed. The text of a constraint error after its code
  is the engine's.
\<close>

definition createTask :: "timestamp \<Rightarrow> payload \<Rightarrow> database \<Rightarrow> (js_error + jsobj) \<times> database" where
  "createTask now task db =
     (let db1 = run INSERT db in
      case bound (title task) of
        None \<Rightarrow> (Inl (Error ''SQLITE_CONSTRAINT: NOT NULL constraint failed: tasks.title''), db1)
      | Some t \<Rightarrow>
         (case bound (status task) of
            None \<Rightarrow> (Inl (Error ''SQLITE_CONSTRAINT: NOT NULL constraint failed: tasks.status''), db1)
          | Some s \<Rightarrow>
             (case bound (due_date task) of
                None \<Rightarrow> (Inl (Error ''SQLITE_CONSTRAINT: NOT NULL constraint failed: tasks.due_date''), db1)
              | Some d \<Rightarrow>
                 if s \<notin> set valid_statuses
                 then (Inl (Error ''SQLITE_CONSTRAINT: CHECK constraint failed: status IN ('pending', 'in_progress', 'completed', 'cancelled')''), db1)
                 else
                  (let lastID = max (sqlite_sequence db) (max_rowid (rows db)) + 1;
                       row = \<lparr>row_id = lastID, row_title = t, row_description = bound (description task),
                              row_status = s, row_due_date = d, created_at = now, updated_at = now\<rparr>
                   in (Inr [(''id'', JNum lastID), (''title'', JStr t),
                            (''description'', of_nullable (bound (description task))),
                            (''status'', JStr s), (''due_date'', JStr d)],
                       db1\<lparr>rows := rows db @ [row], sqlite_sequence := lastID\<rparr>)))))"

text \<open>\<open>getTaskById\<close>: \<open>SELECT * FROM tasks WHERE id = ?\<close>; the row, or \<open>undefined\<close>.\<close>

definition getTaskById :: "id_arg \<Rightarrow> database \<Rightarrow> (js_error + task_row option) \<times> database" where
  "getTaskById i db =
     (Inr (case rowid i of None \<Rightarrow> None | Some n \<Rightarrow> find (\<lambda>r. row_id r = n) (rows db)),
      run (SELECT_BY_ID i) db)"

text \<open>
  \<open>getAllTasks\<close>: \<open>SELECT * FROM tasks ORDER BY due_date ASC\<close>. The engine scans the table
  in rowid order and its sorter keeps that order among equal keys.
\<close>

definition getAllTasks :: "(string \<Rightarrow> real option) \<Rightarrow> database \<Rightarrow> (js_error + task_row list) \<times> database" where
  "getAllTasks numeric db =
     (Inr (sort_key (\<lambda>r. datetime_key numeric (row_due_date r)) (rows db)), run SELECT_ALL db)"

text \<open>The number of rows an \<open>UPDATE\<close> or \<open>DELETE\<close> with \<open>WHERE id = ?\<close> touches.\<close>

definition changes :: "id_arg \<Rightarrow> database \<Rightarrow> nat" where
  "changes i db =
     (case rowid i of None \<Rightarrow> 0 | Some n \<Rightarrow> length (filter (\<lambda>r. row_id r = n) (rows db)))"

definition touched :: "id_arg \<Rightarrow> task_row \<Rightarrow> bool" where
  "touched i r = (rowid i = Some (row_id r))"

text \<open>
  \<open>updateTaskStatus\<close>: \<open>UPDATE tasks SET status = ?, updated_at = CURRENT_TIMESTAMP WHERE id = ?\<close>.
  The \<open>CHECK\<close> constraint is evaluated on the rows the statement touches.
\<close>

definition updateTaskStatus :: "timestamp \<Rightarrow> id_arg \<Rightarrow> string \<Rightarrow> database \<Rightarrow> (js_error + jsobj) \<times> database" where
  "updateTaskStatus now i s db =
     (let db1 = run (UPDATE_STATUS i) db in
      if changes i db = 0 then (Inl (Error ''Task not found''), db1)
      else if s \<notin> set valid_statuses
      then (Inl (Error ''SQLITE_CONSTRAINT: CHECK constraint failed: status IN ('pending', 'in_progress', 'completed', 'cancelled')''), db1)
      else (Inr [(''id'', passed i), (''status'', JStr s), (''updated'', JBool True)],
            db1\<lparr>rows := map (\<lambda>r. if touched i r then r\<lparr>row_status := s, updated_at := now\<rparr> else r)
                              (rows db)\<rparr>))"

text \<open>The \<open>SET\<close> list of \<open>updateTask\<close>: one assignment per key of \<open>updates\<close>, then \<open>updated_at\<close>.\<close>

definition set_fields :: "timestamp \<Rightarrow> payload \<Rightarrow> task_row \<Rightarrow> task_row" where
  "set_fields now updates r =
     r\<lparr>row_title := (case bound (title updates) of None \<Rightarrow> row_title r | Some t \<Rightarrow> t),
       row_description := (case description updates of None \<Rightarrow> row_description r | Some d \<Rightarrow> bound (Some d)),
       row_status := (case bound (status updates) of None \<Rightarrow> row_status r | Some s \<Rightarrow> s),
       row_due_date := (case bound (due_date updates) of None \<Rightarrow> row_due_date r | Some d \<Rightarrow> d),
       updated_at := now\<rparr>"

text \<open>The own keys of an \<open>updates\<close> object, in the order the route inserts them.\<close>

definition updates_object :: "payload \<Rightarrow> jsobj" where
  "updates_object u =
     (case title u of None \<Rightarrow> [] | Some t \<Rightarrow> [(''title'', json_of t)]) @
     (case description u of None \<Rightarrow> [] | Some d \<Rightarrow> [(''description'', json_of d)]) @
     (case status u of None \<Rightarrow> [] | Some s \<Rightarrow> [(''status'', json_of s)]) @
     (case due_date u of None \<Rightarrow> [] | Some d \<Rightarrow> [(''due_date'', json_of d)])"

text \<open>A key of \<open>updates\<close> that would put \<open>NULL\<close> into a \<open>NOT NULL\<close> column.\<close>

definition null_column :: "payload \<Rightarrow> string option" where
  "null_column u =
     (if title u = Some Null then Some ''title''
      else if status u = Some Null then Some ''status''
      else if due_date u = Some Null then Some ''due_date''
      else None)"

text \<open>
  \<open>updateTask\<close>: rejects an \<open>updates\<close> object without any of the four keys before any SQL
  runs; otherwise one \<open>UPDATE tasks SET ... WHERE id = ?\<close>, resolving to
  \<open>{id, ...updates, updated: true}\<close>. The constraints are evaluated on the rows the
  statement touches.
\<close>

definition updateTask :: "timestamp \<Rightarrow> id_arg \<Rightarrow> payload \<Rightarrow> database \<Rightarrow> (js_error + jsobj) \<times> database" where
  "updateTask now i updates db =
     (if updates_object updates = [] then (Inl (Error ''No valid fields to update''), db)
      else
       (let db1 = run (UPDATE_FIELDS i) db in
        if changes i db = 0 then (Inl (Error ''Task not found''), db1)
        else
         (case null_column updates of
            Some c \<Rightarrow> (Inl (Error (''SQLITE_CONSTRAINT: NOT NULL constraint failed: tasks.'' @ c)), db1)
          | None \<Rightarrow>
             if (case bound (status updates) of None \<Rightarrow> False | Some s \<Rightarrow> s \<notin> set valid_statuses)
             then (Inl (Error ''SQLITE_CONSTRAINT: CHECK constraint failed: status IN ('pending', 'in_progress', 'completed', 'cancelled')''), db1)
             else (Inr ((''id'', passed i) # updates_object updates @ [(''updated'', JBool True)]),
                   db1\<lparr>rows := map (\<lambda>r. if touched i r then set_fields now updates r else r)
                                     (rows db)\<rparr>))))"

text \<open>\<open>deleteTask\<close>: \<open>DELETE FROM tasks WHERE id = ?\<close>; \<open>sqlite_sequence\<close> is left alone.\<close>

definition deleteTask :: "id_arg \<Rightarrow> database \<Rightarrow> (js_error + jsobj) \<times> database" where
  "deleteTask i db =
     (let db1 = run (DELETE i) db in
      if changes i db = 0 then (Inl (Error ''Task not found''), db1)
      else (Inr [(''id'', passed i), (''deleted'', JBool True)],
            db1\<lparr>rows := filter (\<lambda>r. \<not> touched i r) (rows db)\<rparr>))"

section \<open>The validation chains of the router\<close>

text \<open>
  The chains are built from the validators and sanitizers of the validation library:
  \<open>trim\<close>, \<open>isLength\<close>, \<open>isIn\<close>, \<open>isInt\<close> and \<open>isISO8601\<close>. A validator reads the field
  as a string, a missing field and \<open>null\<close> as the empty string. A sanitizer writes its
  result back into the request, so the handler that runs after the chain sees the
  trimmed title.
\<close>

definition stringify :: "body_value option \<Rightarrow> string" where
  "stringify v = (case v of None \<Rightarrow> [] | Some Null \<Rightarrow> [] | Some (Str s) \<Rightarrow> s)"

text \<open>JavaScript's \<open>\s\<close> on code points below 256: tab, line feed, vertical tab, form feed,
  carriage return, space and the no-break space.\<close>

definition is_space :: "char \<Rightarrow> bool" where
  "is_space c = ((of_char c :: nat) \<in> {9, 10, 11, 12, 13, 32, 160})"

definition trim :: "string \<Rightarrow> string" where
  "trim s = rev (dropWhile is_space (rev (dropWhile is_space s)))"

definition isLength :: "nat \<Rightarrow> nat option \<Rightarrow> string \<Rightarrow> bool" where
  "isLength min_len max_len s =
     (min_len \<le> length s \<and> (case max_len of None \<Rightarrow> True | Some m \<Rightarrow> length s \<le> m))"

definition isIn :: "string \<Rightarrow> string list \<Rightarrow> bool" where
  "isIn s allowed = (s \<in> set allowed)"

text \<open>
  The library's \<open>isISO8601\<close> matches a pattern that begins with the four digits of a
  year, so the empty string fails it. What it says about any other string is the
  parameter \<open>isISO8601\<close> throughout.
\<close>

definition is_date :: "(string \<Rightarrow> bool) \<Rightarrow> string \<Rightarrow> bool" where
  "is_date isISO8601 s = (s \<noteq> [] \<and> isISO8601 s)"

text \<open>\<open>isInt\<close>: an optional sign, then one or more digits (leading zeroes are allowed unless
  an option forbids them, and the router sets none); with \<open>{min: 1}\<close> the number read
  from the string must be at least 1.\<close>

definition is_digit :: "char \<Rightarrow> bool" where
  "is_digit c = (c \<in> set ''0123456789'')"

definition unsigned :: "string \<Rightarrow> string" where
  "unsigned s = (case s of [] \<Rightarrow> [] | c # cs \<Rightarrow> if c = CHR ''+'' \<or> c = CHR ''-'' then cs else s)"

definition int_pattern :: "string \<Rightarrow> bool" where
  "int_pattern s = (unsigned s \<noteq> [] \<and> list_all is_digit (unsigned s))"

definition digit_value :: "char \<Rightarrow> nat" where
  "digit_value c = of_char c - 48"

definition to_number :: "string \<Rightarrow> int" where
  "to_number s =
     (let n = int (foldl (\<lambda>acc c. 10 * acc + digit_value c) 0 (unsigned s))
      in case s of [] \<Rightarrow> n | c # cs \<Rightarrow> if c = CHR ''-'' then - n else n)"

definition isInt :: "int \<Rightarrow> string \<Rightarrow> bool" where
  "isInt min_value s = (int_pattern s \<and> min_value \<le> to_number s)"

text \<open>One entry of \<open>errors.array()\<close>; \<open>rejected\<close> is the value of the field, if it had one.\<close>

record validation_error =
  location :: string
  path :: string
  msg :: string
  rejected :: "jsval option"

definition check :: "bool \<Rightarrow> string \<Rightarrow> string \<Rightarrow> string \<Rightarrow> jsval option \<Rightarrow> validation_error list" where
  "check ok loc p m v =
     (if ok then [] else [\<lparr>location = loc, path = p, msg = m, rejected = v\<rparr>])"

text \<open>
  \<open>validateTask\<close>, the chain of \<open>POST\<close>. It yields the request body as the sanitizers
  leave it and the errors in the order of the chain. Only a missing description is
  skipped by \<open>optional()\<close>.
\<close>

definition validateTask :: "(string \<Rightarrow> bool) \<Rightarrow> payload \<Rightarrow> payload \<times> validation_error list" where
  "validateTask isISO8601 body =
     (let t = trim (stringify (title body)) in
      (body\<lparr>title := Some (Str t)\<rparr>,
       check (isLength 1 (Some 255) t) ''body'' ''title''
         ''Title is required and must be between 1 and 255 characters'' (Some (JStr t)) @
       (case description body of
          None \<Rightarrow> []
        | Some d \<Rightarrow> check (isLength 0 (Some 1000) (stringify (Some d))) ''body'' ''description''
                     ''Description must not exceed 1000 characters'' (Some (json_of d))) @
       check (isIn (stringify (status body)) valid_statuses) ''body'' ''status''
         ''Status must be one of: pending, in_progress, completed, cancelled''
         (map_option json_of (status body)) @
       check (is_date isISO8601 (stringify (due_date body))) ''body'' ''due_date''
         ''Due date must be a valid ISO 8601 date'' (map_option json_of (due_date body))))"

text \<open>\<open>validateTaskUpdate\<close>, the chain of \<open>PUT\<close>: every field is \<open>optional()\<close>, and a
  missing field is neither sanitized nor validated.\<close>

definition validateTaskUpdate :: "(string \<Rightarrow> bool) \<Rightarrow> payload \<Rightarrow> payload \<times> validation_error list" where
  "validateTaskUpdate isISO8601 body =
     (body\<lparr>title := map_option (\<lambda>v. Str (trim (stringify (Some v)))) (title body)\<rparr>,
      (case title body of
         None \<Rightarrow> []
       | Some v \<Rightarrow> check (isLength 1 (Some 255) (trim (stringify (Some v)))) ''body'' ''title''
                    ''Title must be between 1 and 255 characters''
                    (Some (JStr (trim (stringify (Some v)))))) @
      (case description body of
         None \<Rightarrow> []
       | Some d \<Rightarrow> check (isLength 0 (Some 1000) (stringify (Some d))) ''body'' ''description''
                    ''Description must not exceed 1000 characters'' (Some (json_of d))) @
      (case status body of
         None \<Rightarrow> []
       | Some v \<Rightarrow> check (isIn (stringify (Some v)) valid_statuses) ''body'' ''status''
                    ''Status must be one of: pending, in_progress, completed, cancelled''
                    (Some (json_of v))) @
      (case due_date body of
         None \<Rightarrow> []
       | Some v \<Rightarrow> check (is_date isISO8601 (stringify (Some v))) ''body'' ''due_date''
                    ''Due date must be a valid ISO 8601 date'' (Some (json_of v))))"

definition validateId :: "string \<Rightarrow> validation_error list" where
  "validateId idp =
     check (isInt 1 idp) ''params'' ''id'' ''ID must be a positive integer'' (Some (JStr idp))"

section \<open>Responses and the six routes\<close>

text \<open>
  What \<open>res.status(c).json({...})\<close> sends: the status code and the object, one optional
  slot per key the router ever writes. \<open>res.json\<close> alone sends 200.
\<close>

record response =
  code :: nat
  success :: bool
  data :: "jsdata option"
  count_field :: "nat option"
  message :: "string option"
  error :: "string option"
  details :: "validation_error list option"

definition failure :: "nat \<Rightarrow> string \<Rightarrow> string option \<Rightarrow> response" where
  "failure c e m =
     \<lparr>code = c, success = False, data = None, count_field = None, message = m,
      error = Some e, details = None\<rparr>"

text \<open>\<open>handleValidationErrors\<close>: answers 400 when the chains left errors, else calls \<open>next\<close>.\<close>

definition handleValidationErrors :: "validation_error list \<Rightarrow> response option" where
  "handleValidationErrors errors =
     (if errors \<noteq> []
      then Some \<lparr>code = 400, success = False, data = None, count_field = None, message = None,
                 error = Some ''Validation failed'', details = Some errors\<rparr>
      else None)"

text \<open>
  The routes hand \<open>req.params.id\<close>, a string that \<open>validateId\<close> has accepted, to the store;
  the engine compares the integer column with the number this text spells.
\<close>

definition bound_id :: "string \<Rightarrow> nat" where
  "bound_id idp = nat (to_number idp)"

definition path_id :: "string \<Rightarrow> id_arg" where
  "path_id idp = Id (Some (bound_id idp)) (JStr idp)"

text \<open>\<open>GET /\<close>\<close>

definition get_all :: "(string \<Rightarrow> real option) \<Rightarrow> database \<Rightarrow> response \<times> database" where
  "get_all numeric db =
     (case getAllTasks numeric db of
        (Inr tasks, db') \<Rightarrow>
          (\<lparr>code = 200, success = True, data = Some (Arr (map (row_object numeric) tasks)),
            count_field = Some (length tasks), message = None, error = None, details = None\<rparr>, db')
      | (Inl e, db') \<Rightarrow> (failure 500 ''Failed to fetch tasks'' (Some (message_of e)), db'))"

text \<open>\<open>GET /:id\<close>\<close>

definition get_by_id :: "(string \<Rightarrow> real option) \<Rightarrow> string \<Rightarrow> database \<Rightarrow> response \<times> database" where
  "get_by_id numeric idp db =
     (case handleValidationErrors (validateId idp) of
        Some res \<Rightarrow> (res, db)
      | None \<Rightarrow>
         (case getTaskById (path_id idp) db of
            (Inr None, db') \<Rightarrow> (failure 404 ''Task not found'' None, db')
          | (Inr (Some task), db') \<Rightarrow>
              (\<lparr>code = 200, success = True, data = Some (Obj (row_object numeric task)),
                count_field = None, message = None, error = None, details = None\<rparr>, db')
          | (Inl e, db') \<Rightarrow> (failure 500 ''Failed to fetch task'' (Some (message_of e)), db')))"

text \<open>\<open>POST /\<close>\<close>

definition post :: "(string \<Rightarrow> bool) \<Rightarrow> timestamp \<Rightarrow> payload \<Rightarrow> database \<Rightarrow> response \<times> database" where
  "post isISO8601 now body db =
     (case validateTask isISO8601 body of
        (body', errors) \<Rightarrow>
         (case handleValidationErrors errors of
            Some res \<Rightarrow> (res, db)
          | None \<Rightarrow>
             (case createTask now body' db of
                (Inr task, db') \<Rightarrow>
                  (\<lparr>code = 201, success = True, data = Some (Obj task), count_field = None,
                    message = Some ''Task created successfully'', error = None, details = None\<rparr>, db')
              | (Inl e, db') \<Rightarrow> (failure 500 ''Failed to create task'' (Some (message_of e)), db'))))"

text \<open>\<open>PUT /:id\<close>. The handler copies the fields that are not \<open>undefined\<close> into \<open>updates\<close>;
  on a body of four optional fields that copy is the body itself.\<close>

definition put :: "(string \<Rightarrow> bool) \<Rightarrow> timestamp \<Rightarrow> string \<Rightarrow> payload \<Rightarrow> database \<Rightarrow> response \<times> database" where
  "put isISO8601 now idp body db =
     (case validateTaskUpdate isISO8601 body of
        (updates, errors) \<Rightarrow>
         (case handleValidationErrors (validateId idp @ errors) of
            Some res \<Rightarrow> (res, db)
          | None \<Rightarrow>
             if length (updates_object updates) = 0
             then (failure 400 ''No valid fields provided for update'' None, db)
             else
              (case updateTask now (path_id idp) updates db of
                 (Inr task, db') \<Rightarrow>
                   (\<lparr>code = 200, success = True, data = Some (Obj task), count_field = None,
                     message = Some ''Task updated successfully'', error = None, details = None\<rparr>, db')
               | (Inl e, db') \<Rightarrow>
                   if message_of e = ''Task not found''
                   then (failure 404 ''Task not found'' None, db')
                   else (failure 500 ''Failed to update task'' (Some (message_of e)), db'))))"

text \<open>\<open>PATCH /:id/status\<close>. Only the id runs through a validation chain; the handler
  checks the status itself (\<open>!status\<close> holds for a missing, a \<open>null\<close> and an empty one).\<close>

definition patch_status :: "timestamp \<Rightarrow> string \<Rightarrow> payload \<Rightarrow> database \<Rightarrow> response \<times> database" where
  "patch_status now idp body db =
     (case handleValidationErrors (validateId idp) of
        Some res \<Rightarrow> (res, db)
      | None \<Rightarrow>
         (case bound (status body) of
            None \<Rightarrow>
              (failure 400 ''Valid status is required (pending, in_progress, completed, cancelled)'' None, db)
          | Some s \<Rightarrow>
             if s = [] \<or> s \<notin> set valid_statuses
             then (failure 400 ''Valid status is required (pending, in_progress, completed, cancelled)'' None, db)
             else
              (case updateTaskStatus now (path_id idp) s db of
                 (Inr task, db') \<Rightarrow>
                   (\<lparr>code = 200, success = True, data = Some (Obj task), count_field = None,
                     message = Some ''Task status updated successfully'', error = None, details = None\<rparr>, db')
               | (Inl e, db') \<Rightarrow>
                   if message_of e = ''Task not found''
                   then (failure 404 ''Task not found'' None, db')
                   else (failure 500 ''Failed to update task status'' (Some (message_of e)), db'))))"

text \<open>\<open>DELETE /:id\<close>\<close>

definition delete :: "string \<Rightarrow> database \<Rightarrow> response \<times> database" where
  "delete idp db =
     (case handleValidationErrors (validateId idp) of
        Some res \<Rightarrow> (res, db)
      | None \<Rightarrow>
         (case deleteTask (path_id idp) db of
            (Inr _, db') \<Rightarrow>
              (\<lparr>code = 200, success = True, data = None, count_field = None,
                message = Some ''Task deleted successfully'', error = None, details = None\<rparr>, db')
          | (Inl e, db') \<Rightarrow>
              if message_of e = ''Task not found''
              then (failure 404 ''Task not found'' None, db')
              else (failure 500 ''Failed to delete task'' (Some (message_of e)), db')))"

section \<open>Reading responses, and histories of store calls\<close>

text \<open>
  The client requests a task under \<open>/tasks/${id}\<close>, which writes the id in decimal.
\<close>

definition digit_char :: "nat \<Rightarrow> char" where
  "digit_char d = ''0123456789'' ! d"

fun decimal :: "nat \<Rightarrow> string" where
  "decimal n = (if n < 10 then [digit_char n] else decimal (n div 10) @ [digit_char (n mod 10)])"

declare decimal.simps [simp del]

text \<open>\<open>response.body.data[k]\<close>, as the repository's tests read a returned record.\<close>

definition field :: "string \<Rightarrow> response \<Rightarrow> jsval option" where
  "field k res = (case data res of Some (Obj obj) \<Rightarrow> map_of obj k | _ \<Rightarrow> None)"



definition shape_validation_failed :: "response \<Rightarrow> bool" where
  "shape_validation_failed res =
     (\<exists>ds. ds \<noteq> [] \<and>
        res = \<lparr>code = 400, success = False, data = None, count_field = None, message = None,
               error = Some ''Validation failed'', details = Some ds\<rparr>)"






text \<open>The four values that a create binds into its row, as the create echoes them.\<close>

definition bound_fields :: "task_row \<Rightarrow> jsobj" where
  "bound_fields r =
     [(''title'', JStr (row_title r)), (''description'', of_nullable (row_description r)),
      (''status'', JStr (row_status r)), (''due_date'', JStr (row_due_date r))]"

text \<open>
  A store state is reached from the freshly initialised table by calls of the methods
  of \<open>Database\<close>; the routes touch the store through these methods only.
\<close>

datatype call =
    CreateTask timestamp payload
  | GetTaskById id_arg
  | GetAllTasks
  | UpdateTaskStatus timestamp id_arg string
  | UpdateTask timestamp id_arg payload
  | DeleteTask id_arg

fun call_db :: "(string \<Rightarrow> real option) \<Rightarrow> call \<Rightarrow> database \<Rightarrow> database" where
  "call_db numeric (CreateTask now task) db = snd (createTask now task db)"
| "call_db numeric (GetTaskById i) db = snd (getTaskById i db)"
| "call_db numeric GetAllTasks db = snd (getAllTasks numeric db)"
| "call_db numeric (UpdateTaskStatus now i s) db = snd (updateTaskStatus now i s db)"
| "call_db numeric (UpdateTask now i updates) db = snd (updateTask now i updates db)"
| "call_db numeric (DeleteTask i) db = snd (deleteTask i db)"

fun calls :: "(string \<Rightarrow> real option) \<Rightarrow> call list \<Rightarrow> database \<Rightarrow> database" where
  "calls numeric [] db = db"
| "calls numeric (c # cs) db = calls numeric cs (call_db numeric c db)"

text \<open>The ids that the creates of a history hand out (\<open>this.lastID\<close>), in order.\<close>

definition lastID :: "js_error + jsobj \<Rightarrow> nat list" where
  "lastID result =
     (case result of
        Inl _ \<Rightarrow> []
      | Inr task \<Rightarrow> (case map_of task ''id'' of Some (JNum n) \<Rightarrow> [n] | _ \<Rightarrow> []))"

fun assigned :: "(string \<Rightarrow> real option) \<Rightarrow> call list \<Rightarrow> database \<Rightarrow> nat list" where
  "assigned numeric [] db = []"
| "assigned numeric (CreateTask now task # cs) db =
     lastID (fst (createTask now task db)) @ assigned numeric cs (call_db numeric (CreateTask now task) db)"
| "assigned numeric (c # cs) db = assigned numeric cs (call_db numeric c db)"

text \<open>
  Two properties of a store: every row has one of the four status values; the rows are
  in strictly increasing order of their ids, none of which exceeds \<open>sqlite_sequence\<close>.
\<close>

definition statuses_ok :: "database \<Rightarrow> bool" where
  "statuses_ok db = (\<forall>r \<in> set (rows db). row_status r \<in> set valid_statuses)"

definition rowids_ok :: "database \<Rightarrow> bool" where
  "rowids_ok db =
     (sorted_wrt (<) (map row_id (rows db)) \<and> (\<forall>r \<in> set (rows db). row_id r \<le> sqlite_sequence db))"

section \<open>Concrete requests\<close>

text \<open>
  The date of the repository's test requests and a date validator that accepts just this
  date, the day \<open>2023-06-01\<close> and the year \<open>2024\<close>; an engine that reads a text of
  digits as the number it spells and no other text as a number (each stands for the
  library's validator and for the engine wherever a request is evaluated); and the
  requests, stores and histories that are evaluated below: a create request whose title
  is padded with a space, one whose title is empty, one whose description is \<open>null\<close>, one
  whose description is the empty string, three update payloads, the store after one
  create, the store after three creates of which the second is due first, the store
  after two creates of which the first is due on a day of 2023 and the second in the
  year \<open>2024\<close>, and a history that deletes the first task and creates another.
\<close>

definition sample_date :: string where
  "sample_date = ''2024-12-31T23:59:59.000Z''"

definition accepts_sample_date :: "string \<Rightarrow> bool" where
  "accepts_sample_date s = (s = sample_date \<or> s = ''2023-06-01'' \<or> s = ''2024'')"

definition reads_digits :: "string \<Rightarrow> real option" where
  "reads_digits s = (if int_pattern s then Some (real_of_int (to_number s)) else None)"

definition padded_task :: payload where
  "padded_task = \<lparr>title = Some (Str '' Review case documents''), description = None,
                   status = Some (Str ''pending''), due_date = Some (Str sample_date)\<rparr>"

definition untitled_task :: payload where
  "untitled_task = \<lparr>title = Some (Str []), description = None, status = Some (Str ''pending''),
                     due_date = Some (Str sample_date)\<rparr>"

definition null_description_task :: payload where
  "null_description_task = \<lparr>title = Some (Str ''Review case documents''), description = Some Null,
                             status = Some (Str ''pending''), due_date = Some (Str sample_date)\<rparr>"

definition empty_description_task :: payload where
  "empty_description_task = \<lparr>title = Some (Str ''Review case documents''), description = Some (Str []),
                              status = Some (Str ''pending''), due_date = Some (Str sample_date)\<rparr>"

definition empty_update :: payload where
  "empty_update = \<lparr>title = None, description = None, status = None, due_date = None\<rparr>"

definition completed_update :: payload where
  "completed_update =
     \<lparr>title = None, description = None, status = Some (Str ''completed''), due_date = None\<rparr>"

definition archived_update :: payload where
  "archived_update =
     \<lparr>title = None, description = None, status = Some (Str ''archived''), due_date = None\<rparr>"

definition one_task :: database where
  "one_task = snd (post accepts_sample_date ''t0'' padded_task initializeTables)"



definition delete_and_recreate :: "call list" where
  "delete_and_recreate =
     [CreateTask ''t0'' padded_task, DeleteTask (Id (Some 1) (JNum 1)), CreateTask ''t1'' padded_task,
      UpdateTaskStatus ''t2'' (Id (Some 2) (JNum 2)) ''archived'', CreateTask ''t3'' archived_update]"

section \<open>Basic facts about the validation chains and the store\<close>

lemma handleValidationErrors_Nil: "handleValidationErrors [] = None"
  by (simp add: handleValidationErrors_def)

lemma handleValidationErrors_Some:
  "errors \<noteq> [] \<Longrightarrow> handleValidationErrors errors =
     Some \<lparr>code = 400, success = False, data = None, count_field = None, message = None,
           error = Some ''Validation failed'', details = Some errors\<rparr>"
  by (simp add: handleValidationErrors_def)

lemma check_Nil_iff: "check ok loc p m v = [] \<longleftrightarrow> ok"
  by (simp add: check_def)

lemma validateId_ok: "isInt 1 idp \<Longrightarrow> validateId idp = []"
  by (simp add: validateId_def check_def)

lemma validateId_Nil_iff: "validateId idp = [] \<longleftrightarrow> isInt 1 idp"
  by (simp add: validateId_def check_Nil_iff)

lemma row_id_le_max_rowid: "r \<in> set rs \<Longrightarrow> row_id r \<le> max_rowid rs"
  unfolding max_rowid_def by (induction rs) auto

lemma find_fresh_append:
  "\<forall>r \<in> set rs. row_id r \<noteq> i \<Longrightarrow> row_id x = i \<Longrightarrow> find (\<lambda>r. row_id r = i) (rs @ [x]) = Some x"
  by (induction rs) auto

lemma find_new_row:
  "row_id x = max q (max_rowid rs) + 1 \<Longrightarrow> find (\<lambda>r. row_id r = row_id x) (rs @ [x]) = Some x"
proof (rule find_fresh_append)
  assume a: "row_id x = max q (max_rowid rs) + 1"
  show "\<forall>r\<in>set rs. row_id r \<noteq> row_id x"
  proof
    fix r assume "r \<in> set rs"
    then have "row_id r \<le> max_rowid rs" by (rule row_id_le_max_rowid)
    with a show "row_id r \<noteq> row_id x" by simp
  qed
qed simp

lemma empty_not_status: "[] \<notin> set valid_statuses"
  by (simp add: valid_statuses_def)

lemma stringify_in_statuses:
  "stringify v \<in> set valid_statuses \<longleftrightarrow> (\<exists>s. v = Some (Str s) \<and> s \<in> set valid_statuses)"
  using empty_not_status
  by (cases v) (auto simp: stringify_def split: body_value.splits)

lemma stringify_nonempty: "stringify v \<noteq> [] \<Longrightarrow> v = Some (Str (stringify v))"
  by (cases v) (auto simp: stringify_def split: body_value.splits)

lemma rowid_path_id [simp]: "rowid (path_id idp) = Some (bound_id idp)"
  and passed_path_id [simp]: "passed (path_id idp) = JStr idp"
  by (simp_all add: path_id_def)

lemma touched_path_id [simp]: "touched (path_id idp) r \<longleftrightarrow> row_id r = bound_id idp"
  by (auto simp: touched_def)

lemma changes_path_id:
  "changes (path_id idp) db = 0 \<longleftrightarrow> find (\<lambda>r. row_id r = bound_id idp) (rows db) = None"
  by (auto simp: changes_def find_None_iff filter_empty_conv)

lemma changes_eq_0_iff: "changes i db = 0 \<longleftrightarrow> (\<forall>r \<in> set (rows db). \<not> touched i r)"
  by (cases "rowid i") (auto simp: changes_def touched_def filter_empty_conv)

text \<open>A create request that passes the chain has a title, a status of the four and a date.\<close>

lemma validateTask_valid:
  assumes "snd (validateTask isISO8601 body) = []"
  shows "\<exists>s d. fst (validateTask isISO8601 body) = body\<lparr>title := Some (Str (trim (stringify (title body))))\<rparr>
     \<and> status body = Some (Str s) \<and> s \<in> set valid_statuses
     \<and> due_date body = Some (Str d) \<and> d \<noteq> [] \<and> isISO8601 d
     \<and> isLength 1 (Some 255) (trim (stringify (title body)))
     \<and> length (stringify (description body)) \<le> 1000"
proof -
  from assms have t: "isLength 1 (Some 255) (trim (stringify (title body)))"
    and s: "stringify (status body) \<in> set valid_statuses"
    and d: "is_date isISO8601 (stringify (due_date body))"
    and l: "length (stringify (description body)) \<le> 1000"
    by (auto simp: validateTask_def Let_def check_Nil_iff isIn_def isLength_def stringify_def
          split: option.splits)
  from s obtain s' where s': "status body = Some (Str s')" "s' \<in> set valid_statuses"
    by (auto simp: stringify_in_statuses)
  from d have "stringify (due_date body) \<noteq> []" "isISO8601 (stringify (due_date body))"
    by (simp_all add: is_date_def)
  with stringify_nonempty[of "due_date body"]
  have d': "due_date body = Some (Str (stringify (due_date body)))" by simp
  show ?thesis
    apply (rule exI[of _ s'], rule exI[of _ "stringify (due_date body)"])
    using t s' d' l \<open>stringify (due_date body) \<noteq> []\<close> \<open>isISO8601 (stringify (due_date body))\<close>
    by (simp add: validateTask_def Let_def)
qed

text \<open>What a create request that passes validation does to the store and answers.\<close>

lemma post_valid:
  assumes valid: "snd (validateTask isISO8601 body) = []"
  shows "\<exists>s d. status body = Some (Str s) \<and> due_date body = Some (Str d) \<and> s \<in> set valid_statuses \<and>
    post isISO8601 now body db =
     (let n = max (sqlite_sequence db) (max_rowid (rows db)) + 1;
          t = trim (stringify (title body)) in
      (\<lparr>code = 201, success = True,
        data = Some (Obj [(''id'', JNum n), (''title'', JStr t),
                          (''description'', of_nullable (bound (description body))),
                          (''status'', JStr s), (''due_date'', JStr d)]),
        count_field = None, message = Some ''Task created successfully'', error = None,
        details = None\<rparr>,
       \<lparr>rows = rows db @ [\<lparr>row_id = n, row_title = t, row_description = bound (description body),
                            row_status = s, row_due_date = d, created_at = now, updated_at = now\<rparr>],
        sqlite_sequence = n, executed = executed db @ [INSERT]\<rparr>))"
proof -
  from validateTask_valid[OF valid] obtain s d where
    v: "fst (validateTask isISO8601 body) = body\<lparr>title := Some (Str (trim (stringify (title body))))\<rparr>"
    "status body = Some (Str s)" "s \<in> set valid_statuses" "due_date body = Some (Str d)"
    by blast
  obtain b' where b': "validateTask isISO8601 body = (b', [])"
    using valid by (cases "validateTask isISO8601 body") simp
  with v have b'_eq: "b' = body\<lparr>title := Some (Str (trim (stringify (title body))))\<rparr>" by simp
  show ?thesis
    using v(2-4)
    by (simp add: post_def b' b'_eq handleValidationErrors_Nil createTask_def run_def Let_def bound_def)
qed

lemma get_by_id_valid:
  assumes "isInt 1 idp"
  shows "get_by_id numeric idp db =
     (case find (\<lambda>r. row_id r = bound_id idp) (rows db) of
        None \<Rightarrow> (failure 404 ''Task not found'' None, run (SELECT_BY_ID (path_id idp)) db)
      | Some row \<Rightarrow>
         (\<lparr>code = 200, success = True, data = Some (Obj (row_object numeric row)), count_field = None,
           message = None, error = None, details = None\<rparr>, run (SELECT_BY_ID (path_id idp)) db))"
  by (simp add: get_by_id_def validateId_ok[OF assms(1)] handleValidationErrors_Nil getTaskById_def
        split: option.splits)


text \<open>The decimal text of a positive id passes \<open>validateId\<close> and denotes the id.\<close>

lemma below_ten: "d < 10 \<Longrightarrow> d \<in> {0, 1, 2, 3, 4, 5, 6, 7, 8, 9 :: nat}"
  by auto

lemma digit_value_digit_char: "d < 10 \<Longrightarrow> digit_value (digit_char d) = d"
  by (drule below_ten) (auto simp: digit_value_def digit_char_def)

lemma is_digit_digit_char: "d < 10 \<Longrightarrow> is_digit (digit_char d)"
  by (drule below_ten) (auto simp: is_digit_def digit_char_def)

lemma decimal_digits: "list_all is_digit (decimal n)"
proof (induction n rule: decimal.induct)
  case (1 n)
  show ?case
  proof (cases "n < 10")
    case True
    then show ?thesis by (subst decimal.simps) (simp add: is_digit_digit_char)
  next
    case False
    with 1 show ?thesis by (subst decimal.simps) (simp add: is_digit_digit_char)
  qed
qed

lemma decimal_value: "foldl (\<lambda>acc c. 10 * acc + digit_value c) 0 (decimal n) = n"
proof (induction n rule: decimal.induct)
  case (1 n)
  show ?case
  proof (cases "n < 10")
    case True
    then show ?thesis by (subst decimal.simps) (simp add: digit_value_digit_char)
  next
    case False
    with 1 show ?thesis by (subst decimal.simps) (simp add: digit_value_digit_char)
  qed
qed

lemma decimal_not_Nil: "decimal n \<noteq> []"
  by (subst decimal.simps) simp

lemma decimal_denotes:
  assumes "0 < n"
  shows "isInt 1 (decimal n)" and "bound_id (decimal n) = n"
proof -
  from decimal_not_Nil[of n] obtain c cs where d: "decimal n = c # cs" by (cases "decimal n") auto
  from decimal_digits[of n] d have "is_digit c" by simp
  then have sign: "c \<noteq> CHR ''+''" "c \<noteq> CHR ''-''" by (auto simp: is_digit_def)
  then have u: "unsigned (decimal n) = decimal n" by (simp add: unsigned_def d)
  have v: "to_number (decimal n) = int n"
    using sign decimal_value[of n] by (simp add: to_number_def u Let_def) (simp add: d)
  have p: "int_pattern (decimal n)"
    using decimal_digits[of n] decimal_not_Nil[of n] by (simp add: int_pattern_def u)
  from p v assms show "isInt 1 (decimal n)" by (simp add: isInt_def)
  from v show "bound_id (decimal n) = n" by (simp add: bound_id_def)
qed


section \<open>What the routes do with a well-formed request\<close>

lemma find_map_same_id:
  assumes "\<And>r. row_id (f r) = row_id r"
  shows "find (\<lambda>r. row_id r = i) (map (\<lambda>r. if row_id r = i then f r else r) rs)
         = map_option f (find (\<lambda>r. row_id r = i) rs)"
  using assms by (induction rs) auto

lemma filter_others_map:
  assumes "\<And>r. row_id (f r) = row_id r"
  shows "filter (\<lambda>r. row_id r \<noteq> i) (map (\<lambda>r. if row_id r = i then f r else r) rs)
     = filter (\<lambda>r. row_id r \<noteq> i) rs"
  using assms by (induction rs) auto

lemma row_id_set_fields: "row_id (set_fields now u r) = row_id r"
  by (simp add: set_fields_def)

lemma updates_object_Nil_iff:
  "updates_object u = [] \<longleftrightarrow> title u = None \<and> description u = None \<and> status u = None \<and> due_date u = None"
  by (auto simp: updates_object_def split: option.splits)

lemma trim_Nil: "trim [] = []"
  by (simp add: trim_def)

lemma fst_validateTaskUpdate:
  "fst (validateTaskUpdate isISO8601 body)
     = body\<lparr>title := map_option (\<lambda>v. Str (trim (stringify (Some v)))) (title body)\<rparr>"
  by (simp add: validateTaskUpdate_def)

text \<open>A replace request that passes the chain carries no \<open>null\<close> in title, status or due
  date, and its status, when it has one, is one of the four.\<close>

lemma validateTaskUpdate_valid:
  assumes "snd (validateTaskUpdate isISO8601 body) = []"
  shows "validateTaskUpdate isISO8601 body = (fst (validateTaskUpdate isISO8601 body), [])"
    and "\<And>v. title body = Some v \<Longrightarrow> \<exists>t. v = Str t \<and> isLength 1 (Some 255) (trim t)"
    and "\<And>v. status body = Some v \<Longrightarrow> \<exists>s. v = Str s \<and> s \<in> set valid_statuses"
    and "\<And>v. due_date body = Some v \<Longrightarrow> \<exists>d. v = Str d \<and> d \<noteq> [] \<and> isISO8601 d"
    and "\<And>v. description body = Some v \<Longrightarrow> length (stringify (Some v)) \<le> 1000"
proof -
  show "validateTaskUpdate isISO8601 body = (fst (validateTaskUpdate isISO8601 body), [])"
    using assms by (cases "validateTaskUpdate isISO8601 body") simp
  show "\<exists>t. v = Str t \<and> isLength 1 (Some 255) (trim t)" if "title body = Some v" for v
    using assms that
    by (cases v) (auto simp: validateTaskUpdate_def check_Nil_iff isLength_def stringify_def trim_Nil)
  show "\<exists>s. v = Str s \<and> s \<in> set valid_statuses" if "status body = Some v" for v
    using assms that empty_not_status
    by (cases v) (auto simp: validateTaskUpdate_def check_Nil_iff isIn_def stringify_def)
  show "\<exists>d. v = Str d \<and> d \<noteq> [] \<and> isISO8601 d" if "due_date body = Some v" for v
    using assms that
    by (cases v) (auto simp: validateTaskUpdate_def check_Nil_iff is_date_def stringify_def)
  show "length (stringify (Some v)) \<le> 1000" if "description body = Some v" for v
    using assms that
    by (auto simp: validateTaskUpdate_def check_Nil_iff isLength_def)
qed

lemma valid_update_constraints:
  assumes "snd (validateTaskUpdate isISO8601 body) = []"
  shows "null_column (fst (validateTaskUpdate isISO8601 body)) = None"
    and "(case bound (status (fst (validateTaskUpdate isISO8601 body))) of
            None \<Rightarrow> False | Some s \<Rightarrow> s \<notin> set valid_statuses) = False"
proof -
  show "null_column (fst (validateTaskUpdate isISO8601 body)) = None"
    using validateTaskUpdate_valid(3,4)[OF assms]
    by (auto simp: null_column_def fst_validateTaskUpdate)
  show "(case bound (status (fst (validateTaskUpdate isISO8601 body))) of
            None \<Rightarrow> False | Some s \<Rightarrow> s \<notin> set valid_statuses) = False"
    using validateTaskUpdate_valid(3)[OF assms]
    by (cases "status body") (auto simp: fst_validateTaskUpdate bound_def)
qed

lemma put_valid:
  assumes "isInt 1 idp" and "snd (validateTaskUpdate isISO8601 body) = []"
  shows "put isISO8601 now idp body db =
     (if title body = None \<and> description body = None \<and> status body = None \<and> due_date body = None
      then (failure 400 ''No valid fields provided for update'' None, db)
      else if find (\<lambda>r. row_id r = bound_id idp) (rows db) = None
      then (failure 404 ''Task not found'' None, run (UPDATE_FIELDS (path_id idp)) db)
      else (\<lparr>code = 200, success = True,
              data = Some (Obj ((''id'', JStr idp)
                     # updates_object (fst (validateTaskUpdate isISO8601 body))
                     @ [(''updated'', JBool True)])),
              count_field = None, message = Some ''Task updated successfully'', error = None,
              details = None\<rparr>,
            (run (UPDATE_FIELDS (path_id idp)) db)
              \<lparr>rows := map (\<lambda>r. if row_id r = bound_id idp
                                then set_fields now (fst (validateTaskUpdate isISO8601 body)) r
                                else r) (rows db)\<rparr>))"
proof -
  define u where "u = fst (validateTaskUpdate isISO8601 body)"
  have v: "validateTaskUpdate isISO8601 body = (u, [])"
    using validateTaskUpdate_valid(1)[OF assms(2)] by (simp add: u_def)
  have nil: "updates_object u = []
     \<longleftrightarrow> title body = None \<and> description body = None \<and> status body = None \<and> due_date body = None"
    by (simp add: updates_object_Nil_iff u_def fst_validateTaskUpdate)
  note c = valid_update_constraints[OF assms(2), folded u_def]
  show ?thesis
    unfolding put_def v u_def[symmetric]
    by (simp add: validateId_ok[OF assms(1)] handleValidationErrors_Nil nil updateTask_def Let_def
          changes_path_id c)
qed

lemma patch_status_valid:
  assumes "isInt 1 idp" and "status body = Some (Str s)" and "s \<in> set valid_statuses"
  shows "patch_status now idp body db =
     (if find (\<lambda>r. row_id r = bound_id idp) (rows db) = None
      then (failure 404 ''Task not found'' None, run (UPDATE_STATUS (path_id idp)) db)
      else (\<lparr>code = 200, success = True,
              data = Some (Obj [(''id'', JStr idp), (''status'', JStr s), (''updated'', JBool True)]),
              count_field = None, message = Some ''Task status updated successfully'', error = None,
              details = None\<rparr>,
            (run (UPDATE_STATUS (path_id idp)) db)
              \<lparr>rows := map (\<lambda>r. if row_id r = bound_id idp then r\<lparr>row_status := s, updated_at := now\<rparr> else r)
                            (rows db)\<rparr>))"
proof -
  have "s \<noteq> []" using assms(3) empty_not_status by auto
  then show ?thesis
    using assms(2,3)
    by (simp add: patch_status_def validateId_ok[OF assms(1)] handleValidationErrors_Nil
          updateTaskStatus_def Let_def changes_path_id bound_def)
qed

lemma delete_valid:
  assumes "isInt 1 idp"
  shows "delete idp db =
     (if find (\<lambda>r. row_id r = bound_id idp) (rows db) = None
      then (failure 404 ''Task not found'' None, run (DELETE (path_id idp)) db)
      else (\<lparr>code = 200, success = True, data = None, count_field = None,
              message = Some ''Task deleted successfully'', error = None, details = None\<rparr>,
            (run (DELETE (path_id idp)) db)\<lparr>rows := filter (\<lambda>r. row_id r \<noteq> bound_id idp) (rows db)\<rparr>))"
  by (simp add: delete_def validateId_ok[OF assms(1)] handleValidationErrors_Nil deleteTask_def Let_def
        changes_path_id)

section \<open>What the routes answer, and what they answer to a rejected request\<close>






lemma post_invalid:
  assumes "snd (validateTask isISO8601 body) \<noteq> []"
  shows "post isISO8601 now body db =
     (\<lparr>code = 400, success = False, data = None, count_field = None, message = None,
       error = Some ''Validation failed'', details = Some (snd (validateTask isISO8601 body))\<rparr>, db)"
proof -
  obtain b' errs where v: "validateTask isISO8601 body = (b', errs)"
    by (cases "validateTask isISO8601 body")
  with assms show ?thesis by (simp add: post_def handleValidationErrors_Some)
qed

lemma put_invalid:
  assumes "validateId idp @ snd (validateTaskUpdate isISO8601 body) \<noteq> []"
  shows "put isISO8601 now idp body db =
     (\<lparr>code = 400, success = False, data = None, count_field = None, message = None,
       error = Some ''Validation failed'',
       details = Some (validateId idp @ snd (validateTaskUpdate isISO8601 body))\<rparr>, db)"
proof -
  obtain u errs where v: "validateTaskUpdate isISO8601 body = (u, errs)"
    by (cases "validateTaskUpdate isISO8601 body")
  with assms show ?thesis by (simp add: put_def handleValidationErrors_Some del: append_is_Nil_conv)
qed

lemma bad_id:
  assumes "\<not> isInt 1 idp"
  shows "get_by_id numeric idp db =
     (\<lparr>code = 400, success = False, data = None, count_field = None, message = None,
       error = Some ''Validation failed'', details = Some (validateId idp)\<rparr>, db)"
    and "patch_status now idp body db =
     (\<lparr>code = 400, success = False, data = None, count_field = None, message = None,
       error = Some ''Validation failed'', details = Some (validateId idp)\<rparr>, db)"
    and "delete idp db =
     (\<lparr>code = 400, success = False, data = None, count_field = None, message = None,
       error = Some ''Validation failed'', details = Some (validateId idp)\<rparr>, db)"
    and "validateId idp \<noteq> []"
proof -
  from assms show n: "validateId idp \<noteq> []" by (simp add: validateId_Nil_iff)
  then show "get_by_id numeric idp db =
     (\<lparr>code = 400, success = False, data = None, count_field = None, message = None,
       error = Some ''Validation failed'', details = Some (validateId idp)\<rparr>, db)"
    by (simp add: get_by_id_def handleValidationErrors_Some)
  from n show "patch_status now idp body db =
     (\<lparr>code = 400, success = False, data = None, count_field = None, message = None,
       error = Some ''Validation failed'', details = Some (validateId idp)\<rparr>, db)"
    by (simp add: patch_status_def handleValidationErrors_Some)
  from n show "delete idp db =
     (\<lparr>code = 400, success = False, data = None, count_field = None, message = None,
       error = Some ''Validation failed'', details = Some (validateId idp)\<rparr>, db)"
    by (simp add: delete_def handleValidationErrors_Some)
qed




lemma patch_status_bad_status:
  assumes "\<not> (\<exists>s. status body = Some (Str s) \<and> s \<in> set valid_statuses)"
  shows "code (fst (patch_status now idp body db)) = 400 \<and> snd (patch_status now idp body db) = db"
    and "isInt 1 idp \<Longrightarrow> patch_status now idp body db =
       (failure 400 ''Valid status is required (pending, in_progress, completed, cancelled)'' None, db)"
proof -
  show g: "isInt 1 idp \<Longrightarrow> patch_status now idp body db =
       (failure 400 ''Valid status is required (pending, in_progress, completed, cancelled)'' None, db)"
    using assms
    by (auto simp: patch_status_def validateId_ok handleValidationErrors_Nil bound_def
          split: option.splits body_value.splits)
  show "code (fst (patch_status now idp body db)) = 400 \<and> snd (patch_status now idp body db) = db"
  proof (cases "isInt 1 idp")
    case True
    from g[OF this] show ?thesis by (simp add: failure_def)
  next
    case False
    from bad_id(2)[OF this] show ?thesis by simp
  qed
qed



section \<open>Successful mutations\<close>

lemma createTask_Inr:
  assumes "createTask now task db = (Inr obj, db')"
  shows "\<exists>row. rows db' = rows db @ [row]
     \<and> row_id row = max (sqlite_sequence db) (max_rowid (rows db)) + 1
     \<and> sqlite_sequence db' = row_id row
     \<and> row_status row \<in> set valid_statuses
     \<and> obj = (''id'', JNum (row_id row)) # bound_fields row"
  using assms
  by (auto simp: createTask_def Let_def bound_fields_def run_def split: option.splits if_splits)

lemma createTask_Inl:
  assumes "createTask now task db = (Inl e, db')"
  shows "db' = run INSERT db"
  using assms
  by (auto simp: createTask_def Let_def split: option.splits if_splits)

lemma updates_in_row:
  assumes "null_column u = None"
  shows "set (updates_object u) \<subseteq> set (bound_fields (set_fields now u r))"
  using assms
  by (auto simp: updates_object_def bound_fields_def set_fields_def of_nullable_def bound_def
        json_of_def null_column_def split: option.splits body_value.splits if_splits)

lemma post_success:
  assumes "success (fst (post isISO8601 now body db))"
  shows "\<exists>row. find (\<lambda>r. row_id r = row_id row) (rows (snd (post isISO8601 now body db))) = Some row
       \<and> rows (snd (post isISO8601 now body db)) = rows db @ [row]
       \<and> data (fst (post isISO8601 now body db)) = Some (Obj ((''id'', JNum (row_id row)) # bound_fields row))"
proof -
  have v: "snd (validateTask isISO8601 body) = []"
  proof (rule ccontr)
    assume "snd (validateTask isISO8601 body) \<noteq> []"
    from post_invalid[OF this] assms show False by simp
  qed
  from post_valid[OF v, of now db] obtain s d where
    p: "post isISO8601 now body db =
     (let n = max (sqlite_sequence db) (max_rowid (rows db)) + 1;
          t = trim (stringify (title body)) in
      (\<lparr>code = 201, success = True,
        data = Some (Obj [(''id'', JNum n), (''title'', JStr t),
                          (''description'', of_nullable (bound (description body))),
                          (''status'', JStr s), (''due_date'', JStr d)]),
        count_field = None, message = Some ''Task created successfully'', error = None,
        details = None\<rparr>,
       \<lparr>rows = rows db @ [\<lparr>row_id = n, row_title = t, row_description = bound (description body),
                            row_status = s, row_due_date = d, created_at = now, updated_at = now\<rparr>],
        sqlite_sequence = n, executed = executed db @ [INSERT]\<rparr>))"
    by blast
  define row where "row = \<lparr>row_id = max (sqlite_sequence db) (max_rowid (rows db)) + 1,
     row_title = trim (stringify (title body)), row_description = bound (description body),
     row_status = s, row_due_date = d, created_at = now, updated_at = now\<rparr>"
  have rid: "row_id row = max (sqlite_sequence db) (max_rowid (rows db)) + 1" by (simp add: row_def)
  from find_new_row[OF rid] have f: "find (\<lambda>r. row_id r = row_id row) (rows db @ [row]) = Some row" .
  have r: "rows (snd (post isISO8601 now body db)) = rows db @ [row]"
    by (simp add: p Let_def row_def)
  have d: "data (fst (post isISO8601 now body db)) = Some (Obj ((''id'', JNum (row_id row)) # bound_fields row))"
    by (simp add: p Let_def row_def bound_fields_def)
  show ?thesis
    by (rule exI[of _ row]) (simp add: r f d)
qed

lemma put_success:
  assumes "success (fst (put isISO8601 now idp body db))"
  shows "\<exists>row. find (\<lambda>r. row_id r = bound_id idp) (rows (snd (put isISO8601 now idp body db))) = Some row
       \<and> isInt 1 idp \<and> row_id row = bound_id idp
       \<and> data (fst (put isISO8601 now idp body db))
          = Some (Obj ((''id'', JStr idp) # updates_object (fst (validateTaskUpdate isISO8601 body))
                        @ [(''updated'', JBool True)]))
       \<and> set (updates_object (fst (validateTaskUpdate isISO8601 body))) \<subseteq> set (bound_fields row)"
proof -
  have ok: "validateId idp @ snd (validateTaskUpdate isISO8601 body) = []"
  proof (rule ccontr)
    assume "validateId idp @ snd (validateTaskUpdate isISO8601 body) \<noteq> []"
    from put_invalid[OF this] assms show False by simp
  qed
  then have i: "isInt 1 idp" and v: "snd (validateTaskUpdate isISO8601 body) = []"
    by (simp_all add: validateId_Nil_iff)
  define u where "u = fst (validateTaskUpdate isISO8601 body)"
  have some: "\<not> (title body = None \<and> description body = None \<and> status body = None \<and> due_date body = None)"
  proof
    assume "title body = None \<and> description body = None \<and> status body = None \<and> due_date body = None"
    then have "put isISO8601 now idp body db = (failure 400 ''No valid fields provided for update'' None, db)"
      by (simp only: put_valid[OF i v] if_True simp_thms)
    with assms show False by (simp add: failure_def)
  qed
  from assms some obtain old where old: "find (\<lambda>r. row_id r = bound_id idp) (rows db) = Some old"
    by (cases "find (\<lambda>r. row_id r = bound_id idp) (rows db)") (auto simp: put_valid[OF i v] failure_def)
  have p: "put isISO8601 now idp body db =
      (\<lparr>code = 200, success = True,
              data = Some (Obj ((''id'', JStr idp) # updates_object u @ [(''updated'', JBool True)])),
              count_field = None, message = Some ''Task updated successfully'', error = None,
              details = None\<rparr>,
            (run (UPDATE_FIELDS (path_id idp)) db)
              \<lparr>rows := map (\<lambda>r. if row_id r = bound_id idp then set_fields now u r else r) (rows db)\<rparr>)"
    using some old unfolding u_def by (auto simp: put_valid[OF i v])
  have f: "find (\<lambda>r. row_id r = bound_id idp) (rows (snd (put isISO8601 now idp body db)))
        = Some (set_fields now u old)"
    by (simp add: p find_map_same_id[where f="set_fields now u", OF row_id_set_fields] old)
  have rid: "row_id (set_fields now u old) = bound_id idp"
    using old by (auto simp: row_id_set_fields find_Some_iff)
  have sub: "set (updates_object u) \<subseteq> set (bound_fields (set_fields now u old))"
    by (rule updates_in_row) (simp add: u_def valid_update_constraints(1)[OF v])
  show ?thesis
    unfolding u_def[symmetric]
    by (rule exI[of _ "set_fields now u old"]) (simp add: f sub rid i, simp add: p)
qed

lemma patch_status_success:
  assumes "success (fst (patch_status now idp body db))"
  shows "\<exists>row. find (\<lambda>r. row_id r = bound_id idp) (rows (snd (patch_status now idp body db))) = Some row
       \<and> isInt 1 idp \<and> row_id row = bound_id idp
       \<and> data (fst (patch_status now idp body db))
          = Some (Obj [(''id'', JStr idp), (''status'', JStr (row_status row)),
                       (''updated'', JBool True)])"
proof -
  have i: "isInt 1 idp"
  proof (rule ccontr)
    assume "\<not> isInt 1 idp"
    from bad_id(2)[OF this] assms show False by simp
  qed
  have "\<exists>s. status body = Some (Str s) \<and> s \<in> set valid_statuses"
  proof (rule ccontr)
    assume "\<not> (\<exists>s. status body = Some (Str s) \<and> s \<in> set valid_statuses)"
    from patch_status_bad_status(2)[OF this i] assms show False by (simp add: failure_def)
  qed
  then obtain s where s: "status body = Some (Str s)" "s \<in> set valid_statuses" by auto
  from assms obtain old where old: "find (\<lambda>r. row_id r = bound_id idp) (rows db) = Some old"
    by (cases "find (\<lambda>r. row_id r = bound_id idp) (rows db)")
       (auto simp: patch_status_valid[OF i s] failure_def)
  let ?f = "\<lambda>r. r\<lparr>row_status := s, updated_at := now\<rparr>"
  have f: "find (\<lambda>r. row_id r = bound_id idp) (rows (snd (patch_status now idp body db))) = Some (?f old)"
    using old by (simp add: patch_status_valid[OF i s] find_map_same_id[where f="?f"])
  have rid: "row_id old = bound_id idp" using old by (auto simp: find_Some_iff)
  show ?thesis
    by (rule exI[of _ "?f old"]) (simp add: f i rid, simp add: patch_status_valid[OF i s] old)
qed

section \<open>Invariants of the store\<close>

lemma statuses_ok_set_fields:
  assumes "row_status r \<in> set valid_statuses"
    and "\<not> (case bound (status u) of None \<Rightarrow> False | Some s \<Rightarrow> s \<notin> set valid_statuses)"
  shows "row_status (set_fields now u r) \<in> set valid_statuses"
  using assms by (simp add: set_fields_def split: option.splits)

lemma statuses_ok_call_db:
  assumes "statuses_ok db"
  shows "statuses_ok (call_db numeric c db)"
proof (cases c)
  case (CreateTask now task)
  obtain r d where cr: "createTask now task db = (r, d)" by (cases "createTask now task db")
  show ?thesis
  proof (cases r)
    case (Inl e)
    from createTask_Inl[OF cr[unfolded Inl]] assms show ?thesis
      by (simp add: CreateTask cr statuses_ok_def run_def)
  next
    case (Inr obj)
    from createTask_Inr[OF cr[unfolded Inr]] assms show ?thesis
      by (auto simp: CreateTask cr statuses_ok_def)
  qed
next
  case (GetTaskById i)
  with assms show ?thesis by (simp add: getTaskById_def statuses_ok_def run_def)
next
  case GetAllTasks
  with assms show ?thesis by (simp add: getAllTasks_def statuses_ok_def run_def)
next
  case (UpdateTaskStatus now i s)
  with assms show ?thesis
    by (auto simp: updateTaskStatus_def Let_def statuses_ok_def run_def)
next
  case (UpdateTask now i u)
  with assms show ?thesis
    by (auto simp: updateTask_def Let_def statuses_ok_def run_def intro: statuses_ok_set_fields
          split: option.splits)
next
  case (DeleteTask i)
  with assms show ?thesis
    by (auto simp: deleteTask_def Let_def statuses_ok_def run_def)
qed

lemma statuses_ok_calls: "statuses_ok db \<Longrightarrow> statuses_ok (calls numeric cs db)"
  by (induction cs arbitrary: db) (simp_all add: statuses_ok_call_db)

lemma statuses_ok_init: "statuses_ok initializeTables"
  by (simp add: statuses_ok_def initializeTables_def)

text \<open>Each route leaves the store as it was or as one call of a store method leaves it.\<close>

lemma route_steps:
  "\<exists>cs. snd (get_all numeric db) = calls numeric cs db"
  "\<exists>cs. snd (get_by_id numeric idp db) = calls numeric cs db"
  "\<exists>cs. snd (post isISO8601 now body db) = calls numeric cs db"
  "\<exists>cs. snd (put isISO8601 now idp body db) = calls numeric cs db"
  "\<exists>cs. snd (patch_status now idp body db) = calls numeric cs db"
  "\<exists>cs. snd (delete idp db) = calls numeric cs db"
proof -
  have one: "\<And>c d. d = call_db numeric c db \<Longrightarrow> \<exists>cs. d = calls numeric cs db"
  proof -
    fix c d assume "d = call_db numeric c db"
    then have "d = calls numeric [c] db" by simp
    then show "\<exists>cs. d = calls numeric cs db" by (rule exI)
  qed
  have none: "\<exists>cs. db = calls numeric cs db" by (rule exI[of _ "[]"]) simp
  show "\<exists>cs. snd (get_all numeric db) = calls numeric cs db"
    by (rule one[of _ GetAllTasks]) (simp add: get_all_def getAllTasks_def)
  show "\<exists>cs. snd (get_by_id numeric idp db) = calls numeric cs db"
  proof (cases "isInt 1 idp")
    case True
    show ?thesis
      by (rule one[of _ "GetTaskById (path_id idp)"])
         (simp add: get_by_id_valid[OF True] getTaskById_def split: option.splits)
  next
    case False
    from bad_id(1)[OF this] none show ?thesis by simp
  qed
  show "\<exists>cs. snd (post isISO8601 now body db) = calls numeric cs db"
  proof (cases "snd (validateTask isISO8601 body) = []")
    case False
    from post_invalid[OF this] none show ?thesis by simp
  next
    case True
    obtain b' where v: "validateTask isISO8601 body = (b', [])"
      using True by (cases "validateTask isISO8601 body") simp
    show ?thesis
      by (rule one[of _ "CreateTask now b'"])
         (simp add: post_def v handleValidationErrors_Nil split: prod.splits sum.splits)
  qed
  show "\<exists>cs. snd (put isISO8601 now idp body db) = calls numeric cs db"
  proof (cases "validateId idp @ snd (validateTaskUpdate isISO8601 body) = []")
    case False
    from put_invalid[OF this] none show ?thesis by simp
  next
    case True
    obtain u where v: "validateTaskUpdate isISO8601 body = (u, [])"
      using True by (cases "validateTaskUpdate isISO8601 body") simp
    show ?thesis
    proof (cases "length (updates_object u) = 0")
      case True
      with none show ?thesis
        using \<open>validateId idp @ snd (validateTaskUpdate isISO8601 body) = []\<close>
        by (simp add: put_def v handleValidationErrors_Nil)
    next
      case False
      show ?thesis
        using \<open>validateId idp @ snd (validateTaskUpdate isISO8601 body) = []\<close> False
        by (intro one[of _ "UpdateTask now (path_id idp) u"])
           (simp add: put_def v handleValidationErrors_Nil split: prod.splits sum.splits)
    qed
  qed
  show "\<exists>cs. snd (patch_status now idp body db) = calls numeric cs db"
  proof (cases "isInt 1 idp")
    case False
    from bad_id(2)[OF this] none show ?thesis by simp
  next
    case True
    show ?thesis
    proof (cases "\<exists>s. status body = Some (Str s) \<and> s \<in> set valid_statuses")
      case False
      from patch_status_bad_status(1)[OF this] none show ?thesis by simp
    next
      case True
      then obtain s where s: "status body = Some (Str s)" "s \<in> set valid_statuses" by auto
      then have "s \<noteq> []" using empty_not_status by auto
      then show ?thesis
        using s
        by (intro one[of _ "UpdateTaskStatus now (path_id idp) s"])
           (simp add: patch_status_def validateId_ok[OF \<open>isInt 1 idp\<close>] handleValidationErrors_Nil bound_def
              split: prod.splits sum.splits)
    qed
  qed
  show "\<exists>cs. snd (delete idp db) = calls numeric cs db"
  proof (cases "isInt 1 idp")
    case False
    from bad_id(3)[OF this] none show ?thesis by simp
  next
    case True
    show ?thesis
      by (rule one[of _ "DeleteTask (path_id idp)"])
         (simp add: delete_def validateId_ok[OF True] handleValidationErrors_Nil
            split: prod.splits sum.splits)
  qed
qed

lemma store_rejects_status:
  assumes "s \<notin> set valid_statuses"
  shows "isl (fst (createTask now (task\<lparr>status := Some (Str s)\<rparr>) db))"
    and "rows (snd (createTask now (task\<lparr>status := Some (Str s)\<rparr>) db)) = rows db"
    and "isl (fst (updateTaskStatus now i s db))"
    and "rows (snd (updateTaskStatus now i s db)) = rows db"
    and "isl (fst (updateTask now i (task\<lparr>status := Some (Str s)\<rparr>) db))"
    and "rows (snd (updateTask now i (task\<lparr>status := Some (Str s)\<rparr>) db)) = rows db"
  using assms
  by (auto simp: createTask_def updateTaskStatus_def updateTask_def Let_def run_def updates_object_Nil_iff
        bound_def split: option.splits body_value.splits)

lemma store_rejects_null_status:
  shows "isl (fst (createTask now (task\<lparr>status := Some Null\<rparr>) db))"
    and "rows (snd (createTask now (task\<lparr>status := Some Null\<rparr>) db)) = rows db"
    and "isl (fst (updateTask now i (task\<lparr>status := Some Null\<rparr>) db))"
    and "rows (snd (updateTask now i (task\<lparr>status := Some Null\<rparr>) db)) = rows db"
  by (auto simp: createTask_def updateTask_def Let_def run_def updates_object_Nil_iff
        bound_def null_column_def split: option.splits body_value.splits)

lemma routes_reject_status:
  assumes "s \<notin> set valid_statuses"
  shows "snd (validateTask isISO8601 (body\<lparr>status := Some (Str s)\<rparr>)) \<noteq> []"
    and "snd (validateTaskUpdate isISO8601 (body\<lparr>status := Some (Str s)\<rparr>)) \<noteq> []"
  using assms
  by (auto simp: validateTask_def validateTaskUpdate_def Let_def check_def isIn_def stringify_def
        split: option.splits)

lemma routes_reject_null_status:
  shows "snd (validateTask isISO8601 (body\<lparr>status := Some Null\<rparr>)) \<noteq> []"
    and "snd (validateTaskUpdate isISO8601 (body\<lparr>status := Some Null\<rparr>)) \<noteq> []"
  using empty_not_status
  by (auto simp: validateTask_def validateTaskUpdate_def Let_def check_def isIn_def stringify_def
        split: option.splits)

lemma statuses_ok_routes:
  assumes "statuses_ok db"
  shows "statuses_ok (snd (get_all numeric db))" "statuses_ok (snd (get_by_id numeric idp db))"
    "statuses_ok (snd (post isISO8601 now body db))" "statuses_ok (snd (put isISO8601 now idp body db))"
    "statuses_ok (snd (patch_status now idp body db))" "statuses_ok (snd (delete idp db))"
proof -
  have k: "\<And>d. \<exists>cs. d = calls numeric cs db \<Longrightarrow> statuses_ok d"
    using statuses_ok_calls[OF assms] by auto
  show "statuses_ok (snd (get_all numeric db))" by (rule k[OF route_steps(1)])
  show "statuses_ok (snd (get_by_id numeric idp db))" by (rule k[OF route_steps(2)])
  show "statuses_ok (snd (post isISO8601 now body db))" by (rule k[OF route_steps(3)])
  show "statuses_ok (snd (put isISO8601 now idp body db))" by (rule k[OF route_steps(4)])
  show "statuses_ok (snd (patch_status now idp body db))" by (rule k[OF route_steps(5)])
  show "statuses_ok (snd (delete idp db))" by (rule k[OF route_steps(6)])
qed

section \<open>The ids that creates hand out\<close>

lemma assigned_Cons:
  "assigned numeric (c # cs) db =
     (case c of CreateTask now task \<Rightarrow> lastID (fst (createTask now task db)) | _ \<Rightarrow> [])
     @ assigned numeric cs (call_db numeric c db)"
  by (cases c) simp_all

lemma createTask_lastID:
  "lastID (fst (createTask now task db)) = []
   \<or> (lastID (fst (createTask now task db)) = [sqlite_sequence (snd (createTask now task db))]
      \<and> sqlite_sequence db < sqlite_sequence (snd (createTask now task db))
      \<and> map row_id (rows (snd (createTask now task db)))
          = map row_id (rows db) @ [sqlite_sequence (snd (createTask now task db))]
      \<and> max_rowid (rows db) < sqlite_sequence (snd (createTask now task db)))"
  by (auto simp: createTask_def lastID_def Let_def run_def split: option.splits)

lemma createTask_no_id:
  "lastID (fst (createTask now task db)) = [] \<Longrightarrow>
     rows (snd (createTask now task db)) = rows db
     \<and> sqlite_sequence (snd (createTask now task db)) = sqlite_sequence db"
  by (auto simp: createTask_def lastID_def Let_def run_def split: option.splits)

lemma sqlite_sequence_call_db: "sqlite_sequence db \<le> sqlite_sequence (call_db numeric c db)"
proof (cases c)
  case (CreateTask now task)
  then show ?thesis
    using createTask_lastID[of now task db] createTask_no_id[of now task db] by auto
qed (simp_all add: getTaskById_def getAllTasks_def updateTaskStatus_def updateTask_def deleteTask_def
       Let_def run_def split: option.splits)

lemma sqlite_sequence_calls: "sqlite_sequence db \<le> sqlite_sequence (calls numeric cs db)"
proof (induction cs arbitrary: db)
  case Nil
  show ?case by simp
next
  case (Cons c cs)
  have "sqlite_sequence db \<le> sqlite_sequence (call_db numeric c db)" by (rule sqlite_sequence_call_db)
  also have "\<dots> \<le> sqlite_sequence (calls numeric cs (call_db numeric c db))" by (rule Cons.IH)
  finally show ?case by simp
qed

lemma assigned_bounds:
  "i \<in> set (assigned numeric cs db) \<Longrightarrow> sqlite_sequence db < i \<and> i \<le> sqlite_sequence (calls numeric cs db)"
proof (induction cs arbitrary: db)
  case Nil
  then show ?case by simp
next
  case (Cons c cs)
  let ?here = "case c of CreateTask now task \<Rightarrow> lastID (fst (createTask now task db)) | _ \<Rightarrow> []"
  from Cons.prems have "i \<in> set ?here \<or> i \<in> set (assigned numeric cs (call_db numeric c db))"
    by (simp add: assigned_Cons)
  then show ?case
  proof
    assume later: "i \<in> set (assigned numeric cs (call_db numeric c db))"
    from Cons.IH[OF later] sqlite_sequence_call_db[of db numeric c] show ?thesis by simp
  next
    assume here: "i \<in> set ?here"
    then obtain now task where c: "c = CreateTask now task"
      and i: "i \<in> set (lastID (fst (createTask now task db)))"
      by (cases c) simp_all
    from i createTask_lastID[of now task db]
    have "i = sqlite_sequence (call_db numeric c db)" "sqlite_sequence db < i" by (auto simp: c)
    with sqlite_sequence_calls[of "call_db numeric c db" numeric cs] show ?thesis by simp
  qed
qed

lemma assigned_increasing: "sorted_wrt (<) (assigned numeric cs db)"
proof (induction cs arbitrary: db)
  case Nil
  show ?case by simp
next
  case (Cons c cs)
  let ?here = "case c of CreateTask now task \<Rightarrow> lastID (fst (createTask now task db)) | _ \<Rightarrow> []"
  have a: "sorted_wrt (<) ?here"
    using createTask_lastID by (cases c) (auto, metis sorted_wrt1 sorted_wrt.simps(1))
  have b: "\<forall>x \<in> set ?here. \<forall>y \<in> set (assigned numeric cs (call_db numeric c db)). x < y"
  proof (intro ballI)
    fix x y assume x: "x \<in> set ?here" and y: "y \<in> set (assigned numeric cs (call_db numeric c db))"
    from x obtain now task where c: "c = CreateTask now task"
      and i: "x \<in> set (lastID (fst (createTask now task db)))"
      by (cases c) simp_all
    from i createTask_lastID[of now task db] have "x = sqlite_sequence (call_db numeric c db)"
      by (auto simp: c)
    with assigned_bounds[OF y] show "x < y" by simp
  qed
  show ?case
    by (simp add: assigned_Cons sorted_wrt_append a b Cons.IH)
qed

lemma assigned_append:
  "assigned numeric (cs1 @ cs2) db = assigned numeric cs1 db @ assigned numeric cs2 (calls numeric cs1 db)"
  by (induction cs1 arbitrary: db) (simp_all add: assigned_Cons)

lemma map_row_id_updated:
  assumes "\<And>r. row_id (f r) = row_id r"
  shows "map row_id (map (\<lambda>r. if P r then f r else r) rs) = map row_id rs"
  using assms by (induction rs) auto

lemma row_ids_call_db:
  "map row_id (rows (call_db numeric c db))
     = (case c of
          CreateTask now task \<Rightarrow> map row_id (rows db) @ lastID (fst (createTask now task db))
        | DeleteTask i \<Rightarrow> filter (\<lambda>j. rowid i \<noteq> Some j) (map row_id (rows db))
        | _ \<Rightarrow> map row_id (rows db))"
proof (cases c)
  case (CreateTask now task)
  then show ?thesis
    using createTask_lastID[of now task db] createTask_no_id[of now task db] by auto
next
  case (UpdateTaskStatus now i s)
  then show ?thesis
    by (simp add: updateTaskStatus_def Let_def run_def
          map_row_id_updated[where f="\<lambda>r. r\<lparr>row_status := s, updated_at := now\<rparr>"])
next
  case (UpdateTask now i u)
  then show ?thesis
    by (simp add: updateTask_def Let_def run_def row_id_set_fields
          map_row_id_updated[where f="set_fields now u"] split: option.splits)
next
  case (DeleteTask i)
  then show ?thesis
    by (auto simp add: deleteTask_def Let_def run_def changes_eq_0_iff filter_map o_def
          filter_id_conv touched_def)
qed (simp_all add: getTaskById_def getAllTasks_def run_def)

lemma row_ids_call_db_subset:
  "row_id ` set (rows (call_db numeric c db))
     \<subseteq> row_id ` set (rows db)
       \<union> set (case c of CreateTask now task \<Rightarrow> lastID (fst (createTask now task db)) | _ \<Rightarrow> [])"
proof -
  have "set (map row_id (rows (call_db numeric c db)))
     = set (case c of
          CreateTask now task \<Rightarrow> map row_id (rows db) @ lastID (fst (createTask now task db))
        | DeleteTask i \<Rightarrow> filter (\<lambda>j. rowid i \<noteq> Some j) (map row_id (rows db))
        | _ \<Rightarrow> map row_id (rows db))"
    by (simp only: row_ids_call_db)
  then show ?thesis by (cases c) auto
qed

lemma rowids_ok_call_db:
  assumes "rowids_ok db"
  shows "rowids_ok (call_db numeric c db)"
proof -
  from assms have s: "sorted_wrt (<) (map row_id (rows db))"
    and b: "\<forall>j \<in> set (map row_id (rows db)). j \<le> sqlite_sequence db"
    by (simp_all add: rowids_ok_def)
  have b': "\<forall>j \<in> set (map row_id (rows (call_db numeric c db))). j \<le> sqlite_sequence (call_db numeric c db)"
  proof
    fix j assume j: "j \<in> set (map row_id (rows (call_db numeric c db)))"
    show "j \<le> sqlite_sequence (call_db numeric c db)"
    proof (cases "j \<in> set (map row_id (rows db))")
      case True
      with b have "j \<le> sqlite_sequence db" by blast
      with sqlite_sequence_call_db[of db numeric c] show ?thesis by simp
    next
      case False
      with j row_ids_call_db_subset[of numeric c db] obtain now task where c: "c = CreateTask now task"
        and i: "j \<in> set (lastID (fst (createTask now task db)))"
        by (cases c) auto
      from i createTask_lastID[of now task db] show ?thesis by (auto simp: c)
    qed
  qed
  define ids' where "ids' = map row_id (rows (call_db numeric c db))"
  have e: "ids' = (case c of
          CreateTask now task \<Rightarrow> map row_id (rows db) @ lastID (fst (createTask now task db))
        | DeleteTask i \<Rightarrow> filter (\<lambda>j. rowid i \<noteq> Some j) (map row_id (rows db))
        | _ \<Rightarrow> map row_id (rows db))"
    unfolding ids'_def by (rule row_ids_call_db)
  have "sorted_wrt (<) ids'"
  proof (cases c)
    case (CreateTask now task)
    with e have e': "ids' = map row_id (rows db) @ lastID (fst (createTask now task db))" by simp
    from createTask_lastID[of now task db] show ?thesis
    proof
      assume "lastID (fst (createTask now task db)) = []"
      with s show ?thesis by (simp add: e')
    next
      assume a: "lastID (fst (createTask now task db)) = [sqlite_sequence (snd (createTask now task db))]
        \<and> sqlite_sequence db < sqlite_sequence (snd (createTask now task db))
        \<and> map row_id (rows (snd (createTask now task db)))
          = map row_id (rows db) @ [sqlite_sequence (snd (createTask now task db))]
        \<and> max_rowid (rows db) < sqlite_sequence (snd (createTask now task db))"
      with b have "\<forall>j \<in> set (map row_id (rows db)). j < sqlite_sequence (snd (createTask now task db))"
        by fastforce
      with s a show ?thesis
        by (simp add: e' sorted_wrt_append)
    qed
  next
    case (DeleteTask i)
    with e s show ?thesis by (simp add: sorted_wrt_filter)
  qed (use e s in simp_all)
  then have s': "sorted_wrt (<) (map row_id (rows (call_db numeric c db)))" by (simp only: ids'_def)
  from s' b' show ?thesis by (simp add: rowids_ok_def)
qed

lemma rowids_ok_calls: "rowids_ok db \<Longrightarrow> rowids_ok (calls numeric cs db)"
  by (induction cs arbitrary: db) (simp_all add: rowids_ok_call_db)

lemma rowids_ok_init: "rowids_ok initializeTables"
  by (simp add: rowids_ok_def initializeTables_def)

lemma row_ids_calls:
  "row_id ` set (rows (calls numeric cs db)) \<subseteq> row_id ` set (rows db) \<union> set (assigned numeric cs db)"
proof (induction cs arbitrary: db)
  case Nil
  show ?case by simp
next
  case (Cons c cs)
  let ?here = "case c of CreateTask now task \<Rightarrow> lastID (fst (createTask now task db)) | _ \<Rightarrow> []"
  have a: "row_id ` set (rows (call_db numeric c db)) \<subseteq> row_id ` set (rows db) \<union> set ?here"
    by (rule row_ids_call_db_subset)
  have b: "row_id ` set (rows (calls numeric cs (call_db numeric c db)))
      \<subseteq> row_id ` set (rows (call_db numeric c db)) \<union> set (assigned numeric cs (call_db numeric c db))"
    by (rule Cons.IH)
  have c: "set (assigned numeric (c # cs) db) = set ?here \<union> set (assigned numeric cs (call_db numeric c db))"
    by (simp add: assigned_Cons)
  have d: "calls numeric (c # cs) db = calls numeric cs (call_db numeric c db)" by simp
  from a b show ?case unfolding c d by blast
qed

section \<open>The order of a listing\<close>





section \<open>The concrete requests, evaluated\<close>

lemma isInt_1: "isInt 1 ''1''" "bound_id ''1'' = 1"
  by (simp_all add: isInt_def int_pattern_def unsigned_def to_number_def bound_id_def digit_value_def is_digit_def)

lemma isInt_2: "isInt 1 ''2''" "bound_id ''2'' = 2"
  by (simp_all add: isInt_def int_pattern_def unsigned_def to_number_def bound_id_def digit_value_def is_digit_def)

lemma isInt_01: "isInt 1 ''01''" "bound_id ''01'' = 1" "isInt 1 ''+1''" "bound_id ''+1'' = 1"
  by (simp_all add: isInt_def int_pattern_def unsigned_def to_number_def bound_id_def digit_value_def is_digit_def)

lemma trim_padded: "trim '' Review case documents'' = ''Review case documents''"
  "trim ''Review case documents'' = ''Review case documents''"
  by (simp_all add: trim_def is_space_def)

lemma padded_valid:
  "validateTask accepts_sample_date padded_task
     = (padded_task\<lparr>title := Some (Str ''Review case documents'')\<rparr>, [])"
  by (simp add: validateTask_def padded_task_def stringify_def trim_padded check_def isLength_def isIn_def
        valid_statuses_def accepts_sample_date_def is_date_def sample_date_def Let_def)

lemma described_valid:
  "snd (validateTask accepts_sample_date null_description_task) = []"
  "snd (validateTask accepts_sample_date empty_description_task) = []"
  by (simp_all add: validateTask_def null_description_task_def empty_description_task_def stringify_def
        trim_padded check_def isLength_def isIn_def valid_statuses_def accepts_sample_date_def is_date_def
        sample_date_def Let_def)


lemma post_padded: "post accepts_sample_date now padded_task initializeTables =
   (\<lparr>code = 201, success = True,
        data = Some (Obj [(''id'', JNum 1), (''title'', JStr ''Review case documents''),
                          (''description'', JNull),
                          (''status'', JStr ''pending''), (''due_date'', JStr sample_date)]),
        count_field = None, message = Some ''Task created successfully'', error = None,
        details = None\<rparr>,
       \<lparr>rows = [\<lparr>row_id = 1, row_title = ''Review case documents'', row_description = None,
                            row_status = ''pending'', row_due_date = sample_date, created_at = now, updated_at = now\<rparr>],
        sqlite_sequence = 1, executed = [INSERT]\<rparr>)"
  unfolding post_def padded_valid
  by (simp add: handleValidationErrors_Nil createTask_def Let_def run_def initializeTables_def
     padded_task_def valid_statuses_def max_rowid_def of_nullable_def bound_def)

lemma one_task_eq: "one_task =
   \<lparr>rows = [\<lparr>row_id = 1, row_title = ''Review case documents'', row_description = None,
             row_status = ''pending'', row_due_date = sample_date, created_at = ''t0'',
             updated_at = ''t0''\<rparr>],
    sqlite_sequence = 1, executed = [INSERT]\<rparr>"
  by (simp add: one_task_def post_padded)

lemma updates_valid:
  "snd (validateTaskUpdate accepts_sample_date empty_update) = []"
  "snd (validateTaskUpdate accepts_sample_date completed_update) = []"
  by (simp_all add: validateTaskUpdate_def empty_update_def completed_update_def check_def isIn_def
        valid_statuses_def stringify_def)

lemma untitled_invalid: "snd (validateTask accepts_sample_date untitled_task) \<noteq> []"
  by (simp add: validateTask_def untitled_task_def stringify_def trim_def check_def isLength_def)

lemma malformed_ids:
  "\<not> int_pattern ''abc''" "int_pattern ''0''" "to_number ''0'' < 1" "\<not> isInt 1 ''abc''" "\<not> isInt 1 ''0''"
  by (simp_all add: isInt_def int_pattern_def unsigned_def to_number_def is_digit_def digit_value_def)

lemma archived_not_valid:
  "status archived_update = Some (Str ''archived'')" "''archived'' \<notin> set valid_statuses"
  by (simp_all add: archived_update_def valid_statuses_def)

lemma completed_valid:
  "status completed_update = Some (Str ''completed'')" "''completed'' \<in> set valid_statuses"
  by (simp_all add: completed_update_def valid_statuses_def)

lemma one_task_found: "find (\<lambda>r. row_id r = bound_id ''1'') (rows one_task) = Some (hd (rows one_task))"
  "find (\<lambda>r. row_id r = bound_id ''2'') (rows one_task) = None"
  by (simp_all add: one_task_eq isInt_1 isInt_2)

lemma sample_successes:
  "success (fst (post accepts_sample_date ''t0'' padded_task initializeTables))"
  "success (fst (put accepts_sample_date ''t1'' ''1'' completed_update one_task))"
  "success (fst (patch_status ''t1'' ''1'' completed_update one_task))"
proof -
  show "success (fst (post accepts_sample_date ''t0'' padded_task initializeTables))"
    by (simp add: post_padded)
  have n: "\<not> (title completed_update = None \<and> description completed_update = None
            \<and> status completed_update = None \<and> due_date completed_update = None)"
    by (simp add: completed_update_def)
  show "success (fst (put accepts_sample_date ''t1'' ''1'' completed_update one_task))"
    by (simp only: put_valid[OF isInt_1(1) updates_valid(2)] one_task_found n if_False)
       simp
  show "success (fst (patch_status ''t1'' ''1'' completed_update one_task))"
    by (simp add: patch_status_valid[OF isInt_1(1) completed_valid] one_task_found)
qed

lemma createTask_padded:
  "createTask now padded_task db =
     (Inr [(''id'', JNum (max (sqlite_sequence db) (max_rowid (rows db)) + 1)),
           (''title'', JStr '' Review case documents''), (''description'', JNull),
           (''status'', JStr ''pending''), (''due_date'', JStr sample_date)],
      \<lparr>rows = rows db @ [\<lparr>row_id = max (sqlite_sequence db) (max_rowid (rows db)) + 1,
                           row_title = '' Review case documents'', row_description = None,
                           row_status = ''pending'', row_due_date = sample_date,
                           created_at = now, updated_at = now\<rparr>],
       sqlite_sequence = max (sqlite_sequence db) (max_rowid (rows db)) + 1,
       executed = executed db @ [INSERT]\<rparr>)"
  by (simp add: createTask_def padded_task_def Let_def run_def valid_statuses_def of_nullable_def bound_def)

lemma createTask_archived:
  "createTask now archived_update db
     = (Inl (Error ''SQLITE_CONSTRAINT: NOT NULL constraint failed: tasks.title''), run INSERT db)"
  by (simp add: createTask_def archived_update_def Let_def bound_def)

lemma history_eval:
  "calls numeric delete_and_recreate initializeTables =
     \<lparr>rows = [\<lparr>row_id = 2, row_title = '' Review case documents'', row_description = None,
               row_status = ''pending'', row_due_date = sample_date,
               created_at = ''t1'', updated_at = ''t1''\<rparr>],
      sqlite_sequence = 2,
      executed = [INSERT, DELETE (Id (Some 1) (JNum 1)), INSERT, UPDATE_STATUS (Id (Some 2) (JNum 2)), INSERT]\<rparr>"
  "assigned numeric delete_and_recreate initializeTables = [1, 2]"
  "assigned numeric [CreateTask ''t4'' padded_task] (calls numeric delete_and_recreate initializeTables) = [3]"
  by (simp_all add: delete_and_recreate_def createTask_padded createTask_archived initializeTables_def
        max_rowid_def deleteTask_def updateTaskStatus_def changes_def touched_def run_def Let_def lastID_def
        valid_statuses_def)

lemma one_task_statuses: "statuses_ok one_task"
  by (simp add: statuses_ok_def one_task_eq valid_statuses_def)


lemma reads_digits_samples:
  "reads_digits sample_date = None" "reads_digits ''2024-11-30T23:59:59.000Z'' = None"
  "reads_digits ''2023-06-01'' = None" "reads_digits ''2024'' = Some 2024"
  "reads_digits ''t0'' = None" "reads_digits ''t1'' = None" "reads_digits ''t2'' = None"
  by (simp_all add: reads_digits_def int_pattern_def unsigned_def is_digit_def sample_date_def
        to_number_def digit_value_def)







section \<open>Create, then read back\<close>




section \<open>Replacing fields\<close>

text \<open>
  Claim C2. For an existing task and a payload that passes \<open>validateTaskUpdate\<close>: when
  the payload carries at least one of title, description, status and due date, \<open>PUT\<close>
  answers 200, every field the payload carries takes the payload's value (the title
  trimmed, a \<open>null\<close> description as \<open>NULL\<close>), every field it does not carry keeps its
  prior value, the id and the creation time stay, \<open>updated_at\<close> is refreshed, and all
  other rows and the id counter are untouched. When the payload carries none of the four
  fields, the answer is the 400 response \<open>No valid fields provided for update\<close>, which
  is not the validation-failure shape, and the store is exactly as before.
\<close>

theorem replace_changes_only_present_fields:
  assumes "isInt 1 idp"
    and "snd (validateTaskUpdate isISO8601 body) = []"
    and "find (\<lambda>r. row_id r = bound_id idp) (rows db) = Some old"
    and "put isISO8601 now idp body db = (res, db')"
  shows "(\<not> (title body = None \<and> description body = None \<and> status body = None \<and> due_date body = None) \<longrightarrow>
           code res = 200 \<and> success res
           \<and> (\<exists>new. find (\<lambda>r. row_id r = bound_id idp) (rows db') = Some new
                \<and> (case title body of None \<Rightarrow> row_title new = row_title old
                    | Some v \<Rightarrow> \<exists>t. v = Str t \<and> row_title new = trim t)
                \<and> row_description new
                    = (case description body of None \<Rightarrow> row_description old | Some Null \<Rightarrow> None
                       | Some (Str d) \<Rightarrow> Some d)
                \<and> (case status body of None \<Rightarrow> row_status new = row_status old
                    | Some v \<Rightarrow> v = Str (row_status new))
                \<and> (case due_date body of None \<Rightarrow> row_due_date new = row_due_date old
                    | Some v \<Rightarrow> v = Str (row_due_date new))
                \<and> row_id new = row_id old \<and> created_at new = created_at old \<and> updated_at new = now)
           \<and> filter (\<lambda>r. row_id r \<noteq> bound_id idp) (rows db') = filter (\<lambda>r. row_id r \<noteq> bound_id idp) (rows db)
           \<and> sqlite_sequence db' = sqlite_sequence db)
       \<and> (title body = None \<and> description body = None \<and> status body = None \<and> due_date body = None \<longrightarrow>
           res = failure 400 ''No valid fields provided for update'' None
           \<and> \<not> shape_validation_failed res \<and> db' = db)"
proof (intro conjI impI)
  assume none: "title body = None \<and> description body = None \<and> status body = None \<and> due_date body = None"
  with put_valid[OF assms(1,2), of now db] assms(4)
  have r: "res = failure 400 ''No valid fields provided for update'' None" and d: "db' = db"
    by simp_all
  show "res = failure 400 ''No valid fields provided for update'' None" by (rule r)
  show "db' = db" by (rule d)
  show "\<not> shape_validation_failed res" by (simp add: r shape_validation_failed_def failure_def)
next
  assume some: "\<not> (title body = None \<and> description body = None \<and> status body = None \<and> due_date body = None)"
  define u where "u = fst (validateTaskUpdate isISO8601 body)"
  from put_valid[OF assms(1,2), of now db] assms(3,4) some
  have r: "res = \<lparr>code = 200, success = True,
              data = Some (Obj ((''id'', JStr idp) # updates_object u @ [(''updated'', JBool True)])),
              count_field = None, message = Some ''Task updated successfully'', error = None,
              details = None\<rparr>"
    and d: "db' = (run (UPDATE_FIELDS (path_id idp)) db)
              \<lparr>rows := map (\<lambda>r. if row_id r = bound_id idp then set_fields now u r else r) (rows db)\<rparr>"
    unfolding u_def by auto
  show "code res = 200" "success res" by (simp_all add: r)
  have f: "find (\<lambda>r. row_id r = bound_id idp) (rows db') = Some (set_fields now u old)"
    by (simp add: d find_map_same_id[where f="set_fields now u", OF row_id_set_fields] assms(3))
  note v = validateTaskUpdate_valid(2,3,4)[OF assms(2)]
  have new: "(case title body of None \<Rightarrow> row_title (set_fields now u old) = row_title old
                    | Some v \<Rightarrow> \<exists>t. v = Str t \<and> row_title (set_fields now u old) = trim t)
           \<and> row_description (set_fields now u old)
                    = (case description body of None \<Rightarrow> row_description old | Some Null \<Rightarrow> None
                       | Some (Str d) \<Rightarrow> Some d)
           \<and> (case status body of None \<Rightarrow> row_status (set_fields now u old) = row_status old
                    | Some v \<Rightarrow> v = Str (row_status (set_fields now u old)))
           \<and> (case due_date body of None \<Rightarrow> row_due_date (set_fields now u old) = row_due_date old
                    | Some v \<Rightarrow> v = Str (row_due_date (set_fields now u old)))
           \<and> row_id (set_fields now u old) = row_id old
           \<and> created_at (set_fields now u old) = created_at old
           \<and> updated_at (set_fields now u old) = now"
    using v
    by (auto simp: set_fields_def u_def fst_validateTaskUpdate bound_def stringify_def
          split: option.splits body_value.splits)
  show "\<exists>new. find (\<lambda>r. row_id r = bound_id idp) (rows db') = Some new
                \<and> (case title body of None \<Rightarrow> row_title new = row_title old
                    | Some v \<Rightarrow> \<exists>t. v = Str t \<and> row_title new = trim t)
                \<and> row_description new
                    = (case description body of None \<Rightarrow> row_description old | Some Null \<Rightarrow> None
                       | Some (Str d) \<Rightarrow> Some d)
                \<and> (case status body of None \<Rightarrow> row_status new = row_status old
                    | Some v \<Rightarrow> v = Str (row_status new))
                \<and> (case due_date body of None \<Rightarrow> row_due_date new = row_due_date old
                    | Some v \<Rightarrow> v = Str (row_due_date new))
                \<and> row_id new = row_id old \<and> created_at new = created_at old \<and> updated_at new = now"
    using f new by blast
  show "filter (\<lambda>r. row_id r \<noteq> bound_id idp) (rows db') = filter (\<lambda>r. row_id r \<noteq> bound_id idp) (rows db)"
    by (simp add: d filter_others_map[where f="set_fields now u", OF row_id_set_fields])
  show "sqlite_sequence db' = sqlite_sequence db" by (simp add: d run_def)
qed

theorem replace_changes_only_present_fields_witness:
  "isInt 1 ''1''
   \<and> snd (validateTaskUpdate accepts_sample_date completed_update) = []
   \<and> snd (validateTaskUpdate accepts_sample_date empty_update) = []
   \<and> find (\<lambda>r. row_id r = bound_id ''1'') (rows one_task) \<noteq> None
   \<and> status completed_update \<noteq> None
   \<and> title empty_update = None \<and> description empty_update = None \<and> status empty_update = None
   \<and> due_date empty_update = None
   \<and> code (fst (put accepts_sample_date ''t1'' ''1'' completed_update one_task)) = 200
   \<and> put accepts_sample_date ''t1'' ''1'' empty_update one_task
       = (failure 400 ''No valid fields provided for update'' None, one_task)"
proof -
  have f: "find (\<lambda>r. row_id r = bound_id ''1'') (rows one_task) = Some (hd (rows one_task))"
    by (rule one_task_found(1))
  have s: "status completed_update \<noteq> None" by (simp add: completed_update_def)
  have e: "title empty_update = None \<and> description empty_update = None \<and> status empty_update = None
       \<and> due_date empty_update = None" by (simp add: empty_update_def)
  have p1: "put accepts_sample_date ''t1'' ''1'' completed_update one_task
      = (fst (put accepts_sample_date ''t1'' ''1'' completed_update one_task),
         snd (put accepts_sample_date ''t1'' ''1'' completed_update one_task))" by simp
  have p2: "put accepts_sample_date ''t1'' ''1'' empty_update one_task
      = (fst (put accepts_sample_date ''t1'' ''1'' empty_update one_task),
         snd (put accepts_sample_date ''t1'' ''1'' empty_update one_task))" by simp
  from replace_changes_only_present_fields[OF isInt_1(1) updates_valid(2) f p1] s
  have c1: "code (fst (put accepts_sample_date ''t1'' ''1'' completed_update one_task)) = 200" by blast
  from replace_changes_only_present_fields[OF isInt_1(1) updates_valid(1) f p2] e
  have c2: "fst (put accepts_sample_date ''t1'' ''1'' empty_update one_task)
            = failure 400 ''No valid fields provided for update'' None"
     "snd (put accepts_sample_date ''t1'' ''1'' empty_update one_task) = one_task" by blast+
  from c2 have c3: "put accepts_sample_date ''t1'' ''1'' empty_update one_task
       = (failure 400 ''No valid fields provided for update'' None, one_task)"
    by (metis p2)
  show ?thesis using isInt_1(1) updates_valid f s e c1 c3 by simp
qed

section \<open>Ids without a record\<close>

text \<open>
  Claim C3, as the code has it. For a positive integer id that no row carries,
  get-by-id and delete answer 404 \<open>Task not found\<close>; so does replace when its payload is
  valid and carries at least one of the four fields, and update-status when its status
  is one of the four values. None of them changes a row.
\<close>

theorem missing_id_not_found:
  assumes "isInt 1 idp"
    and "find (\<lambda>r. row_id r = bound_id idp) (rows db) = None"
  shows "fst (get_by_id numeric idp db) = failure 404 ''Task not found'' None
    \<and> rows (snd (get_by_id numeric idp db)) = rows db
    \<and> (snd (validateTaskUpdate isISO8601 body) = []
         \<and> \<not> (title body = None \<and> description body = None \<and> status body = None \<and> due_date body = None) \<longrightarrow>
        fst (put isISO8601 now idp body db) = failure 404 ''Task not found'' None
        \<and> rows (snd (put isISO8601 now idp body db)) = rows db)
    \<and> ((\<exists>s. status body = Some (Str s) \<and> s \<in> set valid_statuses) \<longrightarrow>
        fst (patch_status now idp body db) = failure 404 ''Task not found'' None
        \<and> rows (snd (patch_status now idp body db)) = rows db)
    \<and> fst (delete idp db) = failure 404 ''Task not found'' None
    \<and> rows (snd (delete idp db)) = rows db"
proof (intro conjI impI)
  show "fst (get_by_id numeric idp db) = failure 404 ''Task not found'' None"
    and "rows (snd (get_by_id numeric idp db)) = rows db"
    by (simp_all add: get_by_id_valid[OF assms(1)] assms(2) run_def)
  show "fst (delete idp db) = failure 404 ''Task not found'' None"
    and "rows (snd (delete idp db)) = rows db"
    by (simp_all add: delete_valid[OF assms(1)] assms(2) run_def)
next
  assume a: "snd (validateTaskUpdate isISO8601 body) = []
         \<and> \<not> (title body = None \<and> description body = None \<and> status body = None \<and> due_date body = None)"
  then have v: "snd (validateTaskUpdate isISO8601 body) = []"
    and n: "\<not> (title body = None \<and> description body = None \<and> status body = None \<and> due_date body = None)"
    by simp_all
  have p: "put isISO8601 now idp body db
       = (failure 404 ''Task not found'' None, run (UPDATE_FIELDS (path_id idp)) db)"
    using n by (simp only: put_valid[OF assms(1) v] assms(2) if_False if_True simp_thms)
  show "fst (put isISO8601 now idp body db) = failure 404 ''Task not found'' None"
    by (simp add: p)
  show "rows (snd (put isISO8601 now idp body db)) = rows db"
    by (simp add: p run_def)
next
  assume "\<exists>s. status body = Some (Str s) \<and> s \<in> set valid_statuses"
  then obtain s where s: "status body = Some (Str s)" "s \<in> set valid_statuses" by blast
  show "fst (patch_status now idp body db) = failure 404 ''Task not found'' None"
    by (simp add: patch_status_valid[OF assms(1) s] assms(2))
  show "rows (snd (patch_status now idp body db)) = rows db"
    by (simp add: patch_status_valid[OF assms(1) s] assms(2) run_def)
qed

theorem missing_id_not_found_witness:
  "isInt 1 ''2'' \<and> find (\<lambda>r. row_id r = bound_id ''2'') (rows one_task) = None
   \<and> rows one_task \<noteq> []
   \<and> snd (validateTaskUpdate accepts_sample_date completed_update) = []
   \<and> status completed_update = Some (Str ''completed'') \<and> ''completed'' \<in> set valid_statuses
   \<and> fst (get_by_id reads_digits ''2'' one_task) = failure 404 ''Task not found'' None
   \<and> fst (put accepts_sample_date ''t1'' ''2'' completed_update one_task) = failure 404 ''Task not found'' None
   \<and> fst (patch_status ''t1'' ''2'' completed_update one_task) = failure 404 ''Task not found'' None
   \<and> fst (delete ''2'' one_task) = failure 404 ''Task not found'' None
   \<and> rows (snd (delete ''2'' one_task)) = rows one_task"
proof -
  have r: "rows one_task \<noteq> []" by (simp add: one_task_eq)
  have n: "\<not> (title completed_update = None \<and> description completed_update = None
      \<and> status completed_update = None \<and> due_date completed_update = None)"
    by (simp add: completed_update_def)
  from missing_id_not_found[OF isInt_2(1) one_task_found(2), of reads_digits accepts_sample_date
      completed_update "''t1''"]
    updates_valid(2) completed_valid r isInt_2(1) one_task_found(2) n
  show ?thesis by blast
qed

text \<open>A replace without fields on an id without a record is answered by the handler's
  own 400 response, not by 404.\<close>

theorem empty_replace_counterexample:
  "isInt 1 ''1'' \<and> rows initializeTables = []
   \<and> snd (validateTaskUpdate accepts_sample_date empty_update) = []
   \<and> fst (put accepts_sample_date ''t0'' ''1'' empty_update initializeTables)
       = failure 400 ''No valid fields provided for update'' None
   \<and> fst (put accepts_sample_date ''t0'' ''1'' empty_update initializeTables)
       \<noteq> failure 404 ''Task not found'' None"
  by (simp add: isInt_1 updates_valid put_valid[OF isInt_1(1) updates_valid(1)])
     (simp add: initializeTables_def empty_update_def failure_def)

section \<open>The shapes of responses\<close>




section \<open>What a successful mutation returns\<close>

text \<open>
  Claim C5, as the code has it. The \<open>data\<close> of a successful create is the assigned id
  and the four values that were bound into the new row, the last row of the table:
  title, description, status and due date, without the two timestamps. Reading the id
  back returns the same id, title, description and status, and the same due date unless
  the engine reads that text as a number. The \<open>data\<close> of a successful replace is the id
  as the path spells it, a string, then the fields the request carried, each equal to
  the value bound into the row, and \<open>updated: true\<close>. The \<open>data\<close> of a successful
  update-status is the id as the path spells it, the stored status and \<open>updated: true\<close>.
\<close>

theorem success_data_echoes_bound_values:
  "(success (fst (post isISO8601 now body db)) \<longrightarrow>
      (\<exists>row. rows (snd (post isISO8601 now body db)) = rows db @ [row]
         \<and> find (\<lambda>r. row_id r = row_id row) (rows (snd (post isISO8601 now body db))) = Some row
         \<and> data (fst (post isISO8601 now body db))
             = Some (Obj [(''id'', JNum (row_id row)), (''title'', JStr (row_title row)),
                          (''description'', (case row_description row of None \<Rightarrow> JNull | Some d \<Rightarrow> JStr d)),
                          (''status'', JStr (row_status row)), (''due_date'', JStr (row_due_date row))])
         \<and> (\<forall>numeric. data (fst (get_by_id numeric (decimal (row_id row)) (snd (post isISO8601 now body db))))
             = Some (Obj [(''id'', JNum (row_id row)), (''title'', JStr (row_title row)),
                          (''description'', (case row_description row of None \<Rightarrow> JNull | Some d \<Rightarrow> JStr d)),
                          (''status'', JStr (row_status row)),
                          (''due_date'', (case numeric (row_due_date row) of
                                            None \<Rightarrow> JStr (row_due_date row) | Some x \<Rightarrow> JReal x)),
                          (''created_at'', (case numeric now of None \<Rightarrow> JStr now | Some x \<Rightarrow> JReal x)),
                          (''updated_at'', (case numeric now of None \<Rightarrow> JStr now | Some x \<Rightarrow> JReal x))]))))
   \<and> (success (fst (put isISO8601 now idp body db)) \<longrightarrow>
      (\<exists>row. find (\<lambda>r. row_id r = bound_id idp) (rows (snd (put isISO8601 now idp body db))) = Some row
         \<and> isInt 1 idp \<and> row_id row = bound_id idp
         \<and> data (fst (put isISO8601 now idp body db))
            = Some (Obj ((''id'', JStr idp) # updates_object (fst (validateTaskUpdate isISO8601 body))
                          @ [(''updated'', JBool True)]))
         \<and> set (updates_object (fst (validateTaskUpdate isISO8601 body))) \<subseteq> set (bound_fields row)))
   \<and> (success (fst (patch_status now idp body db)) \<longrightarrow>
      (\<exists>row. find (\<lambda>r. row_id r = bound_id idp) (rows (snd (patch_status now idp body db))) = Some row
         \<and> isInt 1 idp \<and> row_id row = bound_id idp
         \<and> data (fst (patch_status now idp body db))
            = Some (Obj [(''id'', JStr idp), (''status'', JStr (row_status row)),
                         (''updated'', JBool True)])))"
proof (intro conjI impI)
  assume a: "success (fst (post isISO8601 now body db))"
  from post_success[OF a] obtain row where
    r: "rows (snd (post isISO8601 now body db)) = rows db @ [row]"
    and f: "find (\<lambda>r. row_id r = row_id row) (rows (snd (post isISO8601 now body db))) = Some row"
    and d: "data (fst (post isISO8601 now body db)) = Some (Obj ((''id'', JNum (row_id row)) # bound_fields row))"
    by blast
  have v: "snd (validateTask isISO8601 body) = []"
  proof (rule ccontr)
    assume "snd (validateTask isISO8601 body) \<noteq> []"
    from post_invalid[OF this] a show False by simp
  qed
  from post_valid[OF v, of now db] r have rid: "0 < row_id row" "created_at row = now" "updated_at row = now"
    by (auto simp: Let_def)
  have g: "data (fst (get_by_id numeric (decimal (row_id row)) (snd (post isISO8601 now body db))))
             = Some (Obj (row_object numeric row))" for numeric
    using f decimal_denotes[OF rid(1)] by (simp add: get_by_id_valid)
  have "rows (snd (post isISO8601 now body db)) = rows db @ [row]
         \<and> find (\<lambda>r. row_id r = row_id row) (rows (snd (post isISO8601 now body db))) = Some row
         \<and> data (fst (post isISO8601 now body db))
             = Some (Obj [(''id'', JNum (row_id row)), (''title'', JStr (row_title row)),
                          (''description'', (case row_description row of None \<Rightarrow> JNull | Some d \<Rightarrow> JStr d)),
                          (''status'', JStr (row_status row)), (''due_date'', JStr (row_due_date row))])
         \<and> (\<forall>numeric. data (fst (get_by_id numeric (decimal (row_id row)) (snd (post isISO8601 now body db))))
             = Some (Obj [(''id'', JNum (row_id row)), (''title'', JStr (row_title row)),
                          (''description'', (case row_description row of None \<Rightarrow> JNull | Some d \<Rightarrow> JStr d)),
                          (''status'', JStr (row_status row)),
                          (''due_date'', (case numeric (row_due_date row) of
                                            None \<Rightarrow> JStr (row_due_date row) | Some x \<Rightarrow> JReal x)),
                          (''created_at'', (case numeric now of None \<Rightarrow> JStr now | Some x \<Rightarrow> JReal x)),
                          (''updated_at'', (case numeric now of None \<Rightarrow> JStr now | Some x \<Rightarrow> JReal x))]))"
    using r f d
    by (simp add: g bound_fields_def row_object_def of_nullable_def of_datetime_def rid
          split: option.splits)
  then show "\<exists>row. rows (snd (post isISO8601 now body db)) = rows db @ [row]
         \<and> find (\<lambda>r. row_id r = row_id row) (rows (snd (post isISO8601 now body db))) = Some row
         \<and> data (fst (post isISO8601 now body db))
             = Some (Obj [(''id'', JNum (row_id row)), (''title'', JStr (row_title row)),
                          (''description'', (case row_description row of None \<Rightarrow> JNull | Some d \<Rightarrow> JStr d)),
                          (''status'', JStr (row_status row)), (''due_date'', JStr (row_due_date row))])
         \<and> (\<forall>numeric. data (fst (get_by_id numeric (decimal (row_id row)) (snd (post isISO8601 now body db))))
             = Some (Obj [(''id'', JNum (row_id row)), (''title'', JStr (row_title row)),
                          (''description'', (case row_description row of None \<Rightarrow> JNull | Some d \<Rightarrow> JStr d)),
                          (''status'', JStr (row_status row)),
                          (''due_date'', (case numeric (row_due_date row) of
                                            None \<Rightarrow> JStr (row_due_date row) | Some x \<Rightarrow> JReal x)),
                          (''created_at'', (case numeric now of None \<Rightarrow> JStr now | Some x \<Rightarrow> JReal x)),
                          (''updated_at'', (case numeric now of None \<Rightarrow> JStr now | Some x \<Rightarrow> JReal x))]))"
    by blast
next
  assume "success (fst (put isISO8601 now idp body db))"
  from put_success[OF this]
  show "\<exists>row. find (\<lambda>r. row_id r = bound_id idp) (rows (snd (put isISO8601 now idp body db))) = Some row
         \<and> isInt 1 idp \<and> row_id row = bound_id idp
         \<and> data (fst (put isISO8601 now idp body db))
            = Some (Obj ((''id'', JStr idp) # updates_object (fst (validateTaskUpdate isISO8601 body))
                          @ [(''updated'', JBool True)]))
         \<and> set (updates_object (fst (validateTaskUpdate isISO8601 body))) \<subseteq> set (bound_fields row)" .
next
  assume "success (fst (patch_status now idp body db))"
  from patch_status_success[OF this]
  show "\<exists>row. find (\<lambda>r. row_id r = bound_id idp) (rows (snd (patch_status now idp body db))) = Some row
         \<and> isInt 1 idp \<and> row_id row = bound_id idp
         \<and> data (fst (patch_status now idp body db))
            = Some (Obj [(''id'', JStr idp), (''status'', JStr (row_status row)),
                         (''updated'', JBool True)])" .
qed

theorem success_data_echoes_bound_values_witness:
  "success (fst (post accepts_sample_date ''t0'' padded_task initializeTables))
   \<and> success (fst (put accepts_sample_date ''t1'' ''1'' completed_update one_task))
   \<and> success (fst (patch_status ''t1'' ''1'' completed_update one_task))
   \<and> (\<exists>row. rows one_task = [row]
         \<and> data (fst (post accepts_sample_date ''t0'' padded_task initializeTables))
            = Some (Obj [(''id'', JNum (row_id row)), (''title'', JStr (row_title row)),
                          (''description'', (case row_description row of None \<Rightarrow> JNull | Some d \<Rightarrow> JStr d)),
                          (''status'', JStr (row_status row)), (''due_date'', JStr (row_due_date row))]))
   \<and> data (fst (put accepts_sample_date ''t1'' ''1'' completed_update one_task))
        = Some (Obj [(''id'', JStr ''1''), (''status'', JStr ''completed''), (''updated'', JBool True)])
   \<and> (\<exists>row. find (\<lambda>r. row_id r = bound_id ''1'')
               (rows (snd (patch_status ''t1'' ''1'' completed_update one_task))) = Some row
         \<and> data (fst (patch_status ''t1'' ''1'' completed_update one_task))
            = Some (Obj [(''id'', JStr ''1''), (''status'', JStr (row_status row)),
                         (''updated'', JBool True)]))"
proof -
  have r: "rows (snd (post accepts_sample_date ''t0'' padded_task initializeTables)) = rows one_task"
    "rows initializeTables = []"
    by (simp_all add: one_task_def initializeTables_def)
  have u: "updates_object (fst (validateTaskUpdate accepts_sample_date completed_update))
      = [(''status'', JStr ''completed'')]"
    by (simp add: fst_validateTaskUpdate updates_object_def completed_update_def json_of_def)
  from success_data_echoes_bound_values[of accepts_sample_date "''t0''" padded_task initializeTables
          "''1''"] sample_successes(1)
  have 1: "\<exists>row. rows one_task = [row]
         \<and> data (fst (post accepts_sample_date ''t0'' padded_task initializeTables))
            = Some (Obj [(''id'', JNum (row_id row)), (''title'', JStr (row_title row)),
                          (''description'', (case row_description row of None \<Rightarrow> JNull | Some d \<Rightarrow> JStr d)),
                          (''status'', JStr (row_status row)), (''due_date'', JStr (row_due_date row))])"
    unfolding r by auto
  from success_data_echoes_bound_values[of accepts_sample_date "''t1''" completed_update one_task "''1''"]
    sample_successes(2,3)
  have 2: "data (fst (put accepts_sample_date ''t1'' ''1'' completed_update one_task))
        = Some (Obj [(''id'', JStr ''1''), (''status'', JStr ''completed''), (''updated'', JBool True)])"
    and 3: "\<exists>row. find (\<lambda>r. row_id r = bound_id ''1'')
               (rows (snd (patch_status ''t1'' ''1'' completed_update one_task))) = Some row
         \<and> data (fst (patch_status ''t1'' ''1'' completed_update one_task))
            = Some (Obj [(''id'', JStr ''1''), (''status'', JStr (row_status row)),
                         (''updated'', JBool True)])"
    unfolding u by auto
  from sample_successes 1 2 3 show ?thesis by simp
qed

text \<open>
  The \<open>data\<close> of a create is not the record that get-by-id then returns: it has no
  \<open>created_at\<close>. The \<open>data\<close> of a replace that sets the status has no title, and its id
  is the string of the path.
\<close>

theorem created_data_counterexample:
  "success (fst (post accepts_sample_date ''t0'' padded_task initializeTables))
   \<and> field ''id'' (fst (post accepts_sample_date ''t0'' padded_task initializeTables)) = Some (JNum (bound_id ''1''))
   \<and> field ''created_at'' (fst (get_by_id reads_digits ''1''
        (snd (post accepts_sample_date ''t0'' padded_task initializeTables))))
       = Some (JStr ''t0'')
   \<and> field ''created_at'' (fst (post accepts_sample_date ''t0'' padded_task initializeTables)) = None
   \<and> data (fst (post accepts_sample_date ''t0'' padded_task initializeTables))
       \<noteq> data (fst (get_by_id reads_digits ''1''
            (snd (post accepts_sample_date ''t0'' padded_task initializeTables))))
   \<and> success (fst (put accepts_sample_date ''t1'' ''1'' completed_update one_task))
   \<and> field ''title'' (fst (put accepts_sample_date ''t1'' ''1'' completed_update one_task)) = None
   \<and> field ''id'' (fst (put accepts_sample_date ''t1'' ''1'' completed_update one_task)) = Some (JStr ''1'')
   \<and> field ''id'' (fst (get_by_id reads_digits ''1''
        (snd (put accepts_sample_date ''t1'' ''1'' completed_update one_task)))) = Some (JNum 1)"
proof -
  have n: "\<not> (title completed_update = None \<and> description completed_update = None
            \<and> status completed_update = None \<and> due_date completed_update = None)"
    by (simp add: completed_update_def)
  have u: "updates_object (fst (validateTaskUpdate accepts_sample_date completed_update))
      = [(''status'', JStr ''completed'')]"
    by (simp add: fst_validateTaskUpdate updates_object_def completed_update_def json_of_def)
  have p: "put accepts_sample_date ''t1'' ''1'' completed_update one_task
     = (\<lparr>code = 200, success = True,
              data = Some (Obj [(''id'', JStr ''1''), (''status'', JStr ''completed''), (''updated'', JBool True)]),
              count_field = None, message = Some ''Task updated successfully'', error = None,
              details = None\<rparr>,
            (run (UPDATE_FIELDS (path_id ''1'')) one_task)
              \<lparr>rows := map (\<lambda>r. if row_id r = bound_id ''1''
                                then set_fields ''t1'' (fst (validateTaskUpdate accepts_sample_date completed_update)) r
                                else r) (rows one_task)\<rparr>)"
    by (simp only: put_valid[OF isInt_1(1) updates_valid(2)] one_task_found n if_False u) simp
  have 1: "success (fst (post accepts_sample_date ''t0'' padded_task initializeTables))
   \<and> field ''id'' (fst (post accepts_sample_date ''t0'' padded_task initializeTables)) = Some (JNum (bound_id ''1''))
   \<and> field ''created_at'' (fst (get_by_id reads_digits ''1''
        (snd (post accepts_sample_date ''t0'' padded_task initializeTables))))
       = Some (JStr ''t0'')
   \<and> field ''created_at'' (fst (post accepts_sample_date ''t0'' padded_task initializeTables)) = None
   \<and> data (fst (post accepts_sample_date ''t0'' padded_task initializeTables))
       \<noteq> data (fst (get_by_id reads_digits ''1''
            (snd (post accepts_sample_date ''t0'' padded_task initializeTables))))"
    by (simp add: post_padded field_def isInt_1 get_by_id_valid row_object_def of_datetime_def
          reads_digits_samples)
  have 2: "success (fst (put accepts_sample_date ''t1'' ''1'' completed_update one_task))
   \<and> field ''title'' (fst (put accepts_sample_date ''t1'' ''1'' completed_update one_task)) = None
   \<and> field ''id'' (fst (put accepts_sample_date ''t1'' ''1'' completed_update one_task)) = Some (JStr ''1'')"
    by (simp add: p field_def)
  have 3: "field ''id'' (fst (get_by_id reads_digits ''1''
        (snd (put accepts_sample_date ''t1'' ''1'' completed_update one_task)))) = Some (JNum 1)"
    unfolding p
    by (simp add: get_by_id_valid[OF isInt_1(1)] one_task_eq isInt_1(2) field_def row_object_def
          set_fields_def)
  from 1 2 3 show ?thesis by simp
qed

section \<open>Listing\<close>




section \<open>The status domain\<close>

text \<open>
  Claim C7. In every store state that calls of the store's methods reach from the
  freshly initialised table, every row has one of the four status values; every route
  and every store method keeps a store with that property in it. A payload that carries
  any other status, or \<open>null\<close> as status, is answered with 400 by create, replace and
  update-status, and the store after the request is the store before it. The store's
  own methods reject such a status as well: create, update-status and update each fail
  and leave the rows alone.
\<close>

theorem status_domain_enforced:
  assumes "s \<notin> set valid_statuses"
  shows "statuses_ok (calls numeric cs initializeTables)
    \<and> (statuses_ok db \<longrightarrow>
         statuses_ok (snd (get_all numeric db)) \<and> statuses_ok (snd (get_by_id numeric idp db))
         \<and> statuses_ok (snd (post isISO8601 now body db)) \<and> statuses_ok (snd (put isISO8601 now idp body db))
         \<and> statuses_ok (snd (patch_status now idp body db)) \<and> statuses_ok (snd (delete idp db))
         \<and> statuses_ok (call_db numeric c db))
    \<and> code (fst (post isISO8601 now (body\<lparr>status := Some (Str s)\<rparr>) db)) = 400
    \<and> snd (post isISO8601 now (body\<lparr>status := Some (Str s)\<rparr>) db) = db
    \<and> code (fst (put isISO8601 now idp (body\<lparr>status := Some (Str s)\<rparr>) db)) = 400
    \<and> snd (put isISO8601 now idp (body\<lparr>status := Some (Str s)\<rparr>) db) = db
    \<and> code (fst (patch_status now idp (body\<lparr>status := Some (Str s)\<rparr>) db)) = 400
    \<and> snd (patch_status now idp (body\<lparr>status := Some (Str s)\<rparr>) db) = db
    \<and> isl (fst (createTask now (body\<lparr>status := Some (Str s)\<rparr>) db))
    \<and> rows (snd (createTask now (body\<lparr>status := Some (Str s)\<rparr>) db)) = rows db
    \<and> isl (fst (updateTaskStatus now i s db))
    \<and> rows (snd (updateTaskStatus now i s db)) = rows db
    \<and> isl (fst (updateTask now i (body\<lparr>status := Some (Str s)\<rparr>) db))
    \<and> rows (snd (updateTask now i (body\<lparr>status := Some (Str s)\<rparr>) db)) = rows db
    \<and> code (fst (post isISO8601 now (body\<lparr>status := Some Null\<rparr>) db)) = 400
    \<and> snd (post isISO8601 now (body\<lparr>status := Some Null\<rparr>) db) = db
    \<and> code (fst (put isISO8601 now idp (body\<lparr>status := Some Null\<rparr>) db)) = 400
    \<and> snd (put isISO8601 now idp (body\<lparr>status := Some Null\<rparr>) db) = db
    \<and> code (fst (patch_status now idp (body\<lparr>status := Some Null\<rparr>) db)) = 400
    \<and> snd (patch_status now idp (body\<lparr>status := Some Null\<rparr>) db) = db
    \<and> isl (fst (createTask now (body\<lparr>status := Some Null\<rparr>) db))
    \<and> rows (snd (createTask now (body\<lparr>status := Some Null\<rparr>) db)) = rows db
    \<and> isl (fst (updateTask now i (body\<lparr>status := Some Null\<rparr>) db))
    \<and> rows (snd (updateTask now i (body\<lparr>status := Some Null\<rparr>) db)) = rows db"
proof -
  have reach: "statuses_ok (calls numeric cs initializeTables)"
    by (rule statuses_ok_calls[OF statuses_ok_init])
  have keep: "statuses_ok db \<longrightarrow>
         statuses_ok (snd (get_all numeric db)) \<and> statuses_ok (snd (get_by_id numeric idp db))
         \<and> statuses_ok (snd (post isISO8601 now body db)) \<and> statuses_ok (snd (put isISO8601 now idp body db))
         \<and> statuses_ok (snd (patch_status now idp body db)) \<and> statuses_ok (snd (delete idp db))
         \<and> statuses_ok (call_db numeric c db)"
    by (simp add: statuses_ok_routes statuses_ok_call_db)
  have p: "code (fst (post isISO8601 now (body\<lparr>status := Some (Str s)\<rparr>) db)) = 400
      \<and> snd (post isISO8601 now (body\<lparr>status := Some (Str s)\<rparr>) db) = db"
    by (simp add: post_invalid[OF routes_reject_status(1)[OF assms]])
  have "validateId idp @ snd (validateTaskUpdate isISO8601 (body\<lparr>status := Some (Str s)\<rparr>)) \<noteq> []"
    using routes_reject_status(2)[OF assms] by simp
  from put_invalid[OF this]
  have u: "code (fst (put isISO8601 now idp (body\<lparr>status := Some (Str s)\<rparr>) db)) = 400
      \<and> snd (put isISO8601 now idp (body\<lparr>status := Some (Str s)\<rparr>) db) = db"
    by simp
  have "\<not> (\<exists>s'. status (body\<lparr>status := Some (Str s)\<rparr>) = Some (Str s') \<and> s' \<in> set valid_statuses)"
    using assms by simp
  from patch_status_bad_status(1)[OF this]
  have t: "code (fst (patch_status now idp (body\<lparr>status := Some (Str s)\<rparr>) db)) = 400
      \<and> snd (patch_status now idp (body\<lparr>status := Some (Str s)\<rparr>) db) = db" .
  have p0: "code (fst (post isISO8601 now (body\<lparr>status := Some Null\<rparr>) db)) = 400
      \<and> snd (post isISO8601 now (body\<lparr>status := Some Null\<rparr>) db) = db"
    by (simp add: post_invalid[OF routes_reject_null_status(1)])
  have "validateId idp @ snd (validateTaskUpdate isISO8601 (body\<lparr>status := Some Null\<rparr>)) \<noteq> []"
    using routes_reject_null_status(2) by simp
  from put_invalid[OF this]
  have u0: "code (fst (put isISO8601 now idp (body\<lparr>status := Some Null\<rparr>) db)) = 400
      \<and> snd (put isISO8601 now idp (body\<lparr>status := Some Null\<rparr>) db) = db"
    by simp
  have "\<not> (\<exists>s'. status (body\<lparr>status := Some Null\<rparr>) = Some (Str s') \<and> s' \<in> set valid_statuses)"
    by simp
  from patch_status_bad_status(1)[OF this]
  have t0: "code (fst (patch_status now idp (body\<lparr>status := Some Null\<rparr>) db)) = 400
      \<and> snd (patch_status now idp (body\<lparr>status := Some Null\<rparr>) db) = db" .
  show ?thesis
    using reach keep p u t p0 u0 t0 store_rejects_status[OF assms] store_rejects_null_status
    by simp
qed

theorem status_domain_enforced_witness:
  "''archived'' \<notin> set valid_statuses
   \<and> statuses_ok one_task
   \<and> statuses_ok (calls reads_digits delete_and_recreate initializeTables)
   \<and> map row_status (rows (calls reads_digits delete_and_recreate initializeTables)) = [''pending'']
   \<and> statuses_ok (snd (patch_status ''t1'' ''1'' completed_update one_task))
   \<and> snd (post accepts_sample_date ''t1'' (padded_task\<lparr>status := Some (Str ''archived'')\<rparr>) one_task) = one_task
   \<and> snd (patch_status ''t1'' ''1'' (padded_task\<lparr>status := Some (Str ''archived'')\<rparr>) one_task) = one_task
   \<and> isl (fst (updateTaskStatus ''t1'' (Id (Some 1) (JNum 1)) ''archived'' one_task))
   \<and> rows (snd (updateTaskStatus ''t1'' (Id (Some 1) (JNum 1)) ''archived'' one_task)) = rows one_task"
  using status_domain_enforced[OF archived_not_valid(2), of reads_digits delete_and_recreate one_task "''1''"
          accepts_sample_date "''t1''" completed_update "GetAllTasks" "Id (Some 1) (JNum 1)"]
    status_domain_enforced[OF archived_not_valid(2), of reads_digits delete_and_recreate one_task "''1''"
          accepts_sample_date "''t1''" padded_task "GetAllTasks" "Id (Some 1) (JNum 1)"]
    archived_not_valid(2) one_task_statuses
  by (simp add: history_eval)

section \<open>Rejection before the store\<close>

text \<open>
  Claim C8. A create request whose payload fails \<open>validateTask\<close>, a replace request whose
  payload fails \<open>validateTaskUpdate\<close>, any request on a single task whose path id is not
  numeric (an optional sign, then digits) or spells a number below 1, and an
  update-status request without one of the four status values are all answered with
  400, and the store after the request is the store before it: no row, no id counter and
  no entry of the statement trace has changed, so no statement was issued.
\<close>

theorem rejected_before_store:
  "(snd (validateTask isISO8601 body) \<noteq> [] \<longrightarrow>
      code (fst (post isISO8601 now body db)) = 400 \<and> snd (post isISO8601 now body db) = db)
   \<and> (\<not> int_pattern idp \<or> to_number idp < 1 \<or> snd (validateTaskUpdate isISO8601 body) \<noteq> [] \<longrightarrow>
      code (fst (put isISO8601 now idp body db)) = 400 \<and> snd (put isISO8601 now idp body db) = db)
   \<and> (\<not> int_pattern idp \<or> to_number idp < 1 \<longrightarrow>
      code (fst (get_by_id numeric idp db)) = 400 \<and> snd (get_by_id numeric idp db) = db
      \<and> code (fst (patch_status now idp body db)) = 400 \<and> snd (patch_status now idp body db) = db
      \<and> code (fst (delete idp db)) = 400 \<and> snd (delete idp db) = db)
   \<and> (\<not> (\<exists>s. status body = Some (Str s) \<and> s \<in> set valid_statuses) \<longrightarrow>
      code (fst (patch_status now idp body db)) = 400 \<and> snd (patch_status now idp body db) = db)"
proof (intro conjI impI)
  assume a: "snd (validateTask isISO8601 body) \<noteq> []"
  show "code (fst (post isISO8601 now body db)) = 400" and "snd (post isISO8601 now body db) = db"
    by (simp_all add: post_invalid[OF a])
next
  assume "\<not> int_pattern idp \<or> to_number idp < 1 \<or> snd (validateTaskUpdate isISO8601 body) \<noteq> []"
  then have a: "validateId idp @ snd (validateTaskUpdate isISO8601 body) \<noteq> []"
    by (auto simp: validateId_Nil_iff isInt_def)
  show "code (fst (put isISO8601 now idp body db)) = 400" and "snd (put isISO8601 now idp body db) = db"
    by (simp_all add: put_invalid[OF a] del: append_is_Nil_conv)
next
  assume "\<not> int_pattern idp \<or> to_number idp < 1"
  then have a: "\<not> isInt 1 idp" by (auto simp: isInt_def)
  show "code (fst (get_by_id numeric idp db)) = 400" and "snd (get_by_id numeric idp db) = db"
    and "code (fst (patch_status now idp body db)) = 400" and "snd (patch_status now idp body db) = db"
    and "code (fst (delete idp db)) = 400" and "snd (delete idp db) = db"
    by (simp_all add: bad_id[OF a])
next
  assume a: "\<not> (\<exists>s. status body = Some (Str s) \<and> s \<in> set valid_statuses)"
  show "code (fst (patch_status now idp body db)) = 400" and "snd (patch_status now idp body db) = db"
    using patch_status_bad_status(1)[OF a] by simp_all
qed

theorem rejected_before_store_witness:
  "snd (validateTask accepts_sample_date untitled_task) \<noteq> []
   \<and> \<not> int_pattern ''abc''
   \<and> snd (post accepts_sample_date ''t1'' untitled_task one_task) = one_task
   \<and> snd (put accepts_sample_date ''t1'' ''abc'' untitled_task one_task) = one_task
   \<and> snd (delete ''abc'' one_task) = one_task
   \<and> int_pattern ''0'' \<and> to_number ''0'' < 1
   \<and> status archived_update = Some (Str ''archived'') \<and> ''archived'' \<notin> set valid_statuses
   \<and> snd (get_by_id reads_digits ''0'' one_task) = one_task
   \<and> snd (patch_status ''t1'' ''1'' archived_update one_task) = one_task
   \<and> isInt 1 ''01'' \<and> rows (snd (delete ''01'' one_task)) = []"
proof -
  from rejected_before_store[of accepts_sample_date untitled_task "''t1''" one_task "''abc''" reads_digits]
    untitled_invalid malformed_ids(1)
  have 1: "snd (post accepts_sample_date ''t1'' untitled_task one_task) = one_task
   \<and> snd (put accepts_sample_date ''t1'' ''abc'' untitled_task one_task) = one_task
   \<and> snd (delete ''abc'' one_task) = one_task" by blast
  from rejected_before_store[of accepts_sample_date archived_update "''t1''" one_task "''0''" reads_digits]
    malformed_ids(3)
  have 2: "snd (get_by_id reads_digits ''0'' one_task) = one_task" by blast
  have s: "\<not> (\<exists>s. status archived_update = Some (Str s) \<and> s \<in> set valid_statuses)"
    using archived_not_valid by simp
  from rejected_before_store[of accepts_sample_date archived_update "''t1''" one_task "''1''" reads_digits] s
  have 3: "snd (patch_status ''t1'' ''1'' archived_update one_task) = one_task" by blast
  have 4: "rows (snd (delete ''01'' one_task)) = []"
    by (simp add: delete_valid[OF isInt_01(1)] isInt_01(2) one_task_eq)
  show ?thesis
    using untitled_invalid malformed_ids(1,2,3) archived_not_valid 1 2 3 4 isInt_01(1) by blast
qed

section \<open>Task ids\<close>

text \<open>
  Claim C9. For every history of store calls from the freshly initialised table
  (creates and deletes, and the other methods too), the ids handed out by its creates
  are strictly increasing, hence pairwise distinct; an id handed out after the history
  is none of the ids handed out during it, whether or not their rows were deleted; the
  rows of the table carry pairwise distinct ids, each of them handed out by a create;
  and every id is positive.
\<close>

theorem ids_assigned_once:
  "sorted_wrt (<) (assigned numeric cs initializeTables)
   \<and> distinct (assigned numeric cs initializeTables)
   \<and> (\<forall>i \<in> set (assigned numeric cs2 (calls numeric cs initializeTables)).
         i \<notin> set (assigned numeric cs initializeTables))
   \<and> distinct (map row_id (rows (calls numeric cs initializeTables)))
   \<and> set (map row_id (rows (calls numeric cs initializeTables))) \<subseteq> set (assigned numeric cs initializeTables)
   \<and> (\<forall>i \<in> set (assigned numeric cs initializeTables). 0 < i)"
proof (intro conjI)
  show inc: "sorted_wrt (<) (assigned numeric cs initializeTables)" by (rule assigned_increasing)
  then show "distinct (assigned numeric cs initializeTables)" using strict_sorted_iff by blast
  show "\<forall>i \<in> set (assigned numeric cs2 (calls numeric cs initializeTables)).
         i \<notin> set (assigned numeric cs initializeTables)"
  proof
    fix i assume "i \<in> set (assigned numeric cs2 (calls numeric cs initializeTables))"
    from assigned_bounds[OF this] have "sqlite_sequence (calls numeric cs initializeTables) < i" by simp
    with assigned_bounds[of i numeric cs initializeTables]
    show "i \<notin> set (assigned numeric cs initializeTables)"
      by auto
  qed
  from rowids_ok_calls[OF rowids_ok_init, of numeric cs]
  have "sorted_wrt (<) (map row_id (rows (calls numeric cs initializeTables)))" by (simp add: rowids_ok_def)
  then show "distinct (map row_id (rows (calls numeric cs initializeTables)))"
    using strict_sorted_iff by blast
  from row_ids_calls[of numeric cs initializeTables]
  show "set (map row_id (rows (calls numeric cs initializeTables))) \<subseteq> set (assigned numeric cs initializeTables)"
    by (simp add: initializeTables_def)
  show "\<forall>i \<in> set (assigned numeric cs initializeTables). 0 < i"
  proof
    fix i assume "i \<in> set (assigned numeric cs initializeTables)"
    from assigned_bounds[OF this] show "0 < i" by simp
  qed
qed

theorem ids_assigned_once_witness:
  "assigned reads_digits delete_and_recreate initializeTables = [1, 2]
   \<and> map row_id (rows (calls reads_digits delete_and_recreate initializeTables)) = [2]
   \<and> assigned reads_digits [CreateTask ''t4'' padded_task] (calls reads_digits delete_and_recreate initializeTables) = [3]
   \<and> sorted_wrt (<) (assigned reads_digits delete_and_recreate initializeTables)
   \<and> distinct (map row_id (rows (calls reads_digits delete_and_recreate initializeTables)))
   \<and> 3 \<notin> set (assigned reads_digits delete_and_recreate initializeTables)"
  using ids_assigned_once[of reads_digits delete_and_recreate "[CreateTask ''t4'' padded_task]"]
  unfolding history_eval(2,3)
  by (simp add: history_eval(1))

section \<open>Empty, null and missing descriptions\<close>

text \<open>
  Claim C10, as the code has it, for request fields that are strings, \<open>null\<close> or
  missing. A create request stays valid when its description is replaced by the empty
  string, by \<open>null\<close> or by nothing. A valid create request is answered with 201 and a
  positive id; the description stored under that id is the string sent, the empty
  string included, and \<open>NULL\<close> when the request carried \<open>null\<close> or no description. Read
  back, the description is the empty string exactly when the request carried the empty
  string, and \<open>null\<close> exactly when the request carried no description or carried
  \<open>null\<close>.
\<close>

theorem description_read_back:
  assumes "snd (validateTask isISO8601 body) = []"
    and "post isISO8601 now body db = (res, db')"
  shows "snd (validateTask isISO8601 (body\<lparr>description := Some (Str [])\<rparr>)) = []
    \<and> snd (validateTask isISO8601 (body\<lparr>description := Some Null\<rparr>)) = []
    \<and> snd (validateTask isISO8601 (body\<lparr>description := None\<rparr>)) = []
    \<and> code res = 201
    \<and> (\<exists>n row. 0 < n \<and> field ''id'' res = Some (JNum n)
          \<and> find (\<lambda>r. row_id r = n) (rows db') = Some row
          \<and> row_description row
              = (case description body of None \<Rightarrow> None | Some Null \<Rightarrow> None | Some (Str d) \<Rightarrow> Some d)
          \<and> (\<forall>numeric.
               field ''description'' (fst (get_by_id numeric (decimal n) db'))
                 = Some (case description body of None \<Rightarrow> JNull | Some v \<Rightarrow> json_of v)
               \<and> (field ''description'' (fst (get_by_id numeric (decimal n) db')) = Some (JStr [])
                    \<longleftrightarrow> description body = Some (Str []))
               \<and> (field ''description'' (fst (get_by_id numeric (decimal n) db')) = Some JNull
                    \<longleftrightarrow> description body = None \<or> description body = Some Null)))"
proof -
  have v: "snd (validateTask isISO8601 (body\<lparr>description := Some (Str [])\<rparr>)) = []"
    "snd (validateTask isISO8601 (body\<lparr>description := Some Null\<rparr>)) = []"
    "snd (validateTask isISO8601 (body\<lparr>description := None\<rparr>)) = []"
    using assms(1)
    by (simp_all add: validateTask_def Let_def check_Nil_iff isLength_def stringify_def split: option.splits)
  from post_success[of isISO8601 now body db] post_valid[OF assms(1), of now db] assms(2)
  have r: "rows db' = rows db @ [\<lparr>row_id = max (sqlite_sequence db) (max_rowid (rows db)) + 1,
     row_title = trim (stringify (title body)), row_description = bound (description body),
     row_status = row_status (last (rows db')), row_due_date = row_due_date (last (rows db')),
     created_at = now, updated_at = now\<rparr>]"
    by (auto simp: Let_def)
  define n where "n = max (sqlite_sequence db) (max_rowid (rows db)) + 1"
  define row where "row = \<lparr>row_id = n,
     row_title = trim (stringify (title body)), row_description = bound (description body),
     row_status = row_status (last (rows db')), row_due_date = row_due_date (last (rows db')),
     created_at = now, updated_at = now\<rparr>"
  have rid: "row_id row = max (sqlite_sequence db) (max_rowid (rows db)) + 1" by (simp add: row_def n_def)
  from find_new_row[OF rid] r have f: "find (\<lambda>r. row_id r = n) (rows db') = Some row"
    by (simp add: row_def n_def)
  have n: "0 < n" by (simp add: n_def)
  from post_valid[OF assms(1), of now db] assms(2)
  have res: "code res = 201" "field ''id'' res = Some (JNum n)"
    by (auto simp: Let_def field_def n_def)
  have d: "row_description row
              = (case description body of None \<Rightarrow> None | Some Null \<Rightarrow> None | Some (Str d) \<Rightarrow> Some d)"
    by (simp add: row_def bound_def)
  have g: "field ''description'' (fst (get_by_id numeric (decimal n) db'))
                 = Some (case description body of None \<Rightarrow> JNull | Some v \<Rightarrow> json_of v)" for numeric
    using f decimal_denotes[OF n]
    by (simp add: get_by_id_valid field_def row_object_def row_def of_nullable_def bound_def json_of_def
          split: option.splits body_value.splits)
  have e: "(field ''description'' (fst (get_by_id numeric (decimal n) db')) = Some (JStr [])
                    \<longleftrightarrow> description body = Some (Str []))
               \<and> (field ''description'' (fst (get_by_id numeric (decimal n) db')) = Some JNull
                    \<longleftrightarrow> description body = None \<or> description body = Some Null)" for numeric
    by (simp add: g json_of_def split: option.splits body_value.splits)
  have "0 < n \<and> field ''id'' res = Some (JNum n)
          \<and> find (\<lambda>r. row_id r = n) (rows db') = Some row
          \<and> row_description row
              = (case description body of None \<Rightarrow> None | Some Null \<Rightarrow> None | Some (Str d) \<Rightarrow> Some d)
          \<and> (\<forall>numeric.
               field ''description'' (fst (get_by_id numeric (decimal n) db'))
                 = Some (case description body of None \<Rightarrow> JNull | Some v \<Rightarrow> json_of v)
               \<and> (field ''description'' (fst (get_by_id numeric (decimal n) db')) = Some (JStr [])
                    \<longleftrightarrow> description body = Some (Str []))
               \<and> (field ''description'' (fst (get_by_id numeric (decimal n) db')) = Some JNull
                    \<longleftrightarrow> description body = None \<or> description body = Some Null))"
    using n res(2) f d g e by blast
  then have "\<exists>n row. 0 < n \<and> field ''id'' res = Some (JNum n)
          \<and> find (\<lambda>r. row_id r = n) (rows db') = Some row
          \<and> row_description row
              = (case description body of None \<Rightarrow> None | Some Null \<Rightarrow> None | Some (Str d) \<Rightarrow> Some d)
          \<and> (\<forall>numeric.
               field ''description'' (fst (get_by_id numeric (decimal n) db'))
                 = Some (case description body of None \<Rightarrow> JNull | Some v \<Rightarrow> json_of v)
               \<and> (field ''description'' (fst (get_by_id numeric (decimal n) db')) = Some (JStr [])
                    \<longleftrightarrow> description body = Some (Str []))
               \<and> (field ''description'' (fst (get_by_id numeric (decimal n) db')) = Some JNull
                    \<longleftrightarrow> description body = None \<or> description body = Some Null))"
    by blast
  with v res(1) show ?thesis by simp
qed

theorem description_read_back_witness:
  "snd (validateTask accepts_sample_date empty_description_task) = []
   \<and> description empty_description_task = Some (Str [])
   \<and> code (fst (post accepts_sample_date ''t0'' empty_description_task initializeTables)) = 201
   \<and> (\<exists>n. 0 < n
         \<and> field ''id'' (fst (post accepts_sample_date ''t0'' empty_description_task initializeTables))
             = Some (JNum n)
         \<and> field ''description''
             (fst (get_by_id reads_digits (decimal n)
                    (snd (post accepts_sample_date ''t0'' empty_description_task initializeTables))))
            = Some (JStr []))"
proof -
  have d: "post accepts_sample_date ''t0'' empty_description_task initializeTables =
     (fst (post accepts_sample_date ''t0'' empty_description_task initializeTables),
      snd (post accepts_sample_date ''t0'' empty_description_task initializeTables))"
    by simp
  have t: "description empty_description_task = Some (Str [])"
    by (simp add: empty_description_task_def)
  from description_read_back[OF described_valid(2) d]
  obtain n where n: "0 < n"
    "field ''id'' (fst (post accepts_sample_date ''t0'' empty_description_task initializeTables)) = Some (JNum n)"
    "\<forall>numeric. field ''description'' (fst (get_by_id numeric (decimal n)
          (snd (post accepts_sample_date ''t0'' empty_description_task initializeTables))))
        = Some (case description empty_description_task of None \<Rightarrow> JNull | Some v \<Rightarrow> json_of v)"
    and c: "code (fst (post accepts_sample_date ''t0'' empty_description_task initializeTables)) = 201"
    by blast
  from n(3) have g: "field ''description'' (fst (get_by_id reads_digits (decimal n)
          (snd (post accepts_sample_date ''t0'' empty_description_task initializeTables))))
        = Some (JStr [])"
    by (simp add: t json_of_def)
  show ?thesis
    apply (intro conjI exI[of _ n])
    using described_valid(2) t c n(1,2) g by simp_all
qed

text \<open>
  A create request whose description is \<open>null\<close> carries a description, is valid, and
  its task reads back with the description \<open>null\<close>, as a task created without any
  description does.
\<close>

theorem null_description_counterexample:
  "snd (validateTask accepts_sample_date null_description_task) = []
   \<and> description null_description_task = Some Null
   \<and> description null_description_task \<noteq> None
   \<and> field ''id'' (fst (post accepts_sample_date ''t0'' null_description_task initializeTables))
       = Some (JNum (bound_id ''1''))
   \<and> field ''description''
       (fst (get_by_id reads_digits ''1''
          (snd (post accepts_sample_date ''t0'' null_description_task initializeTables))))
       = Some JNull"
proof -
  have t: "trim (stringify (title null_description_task)) = ''Review case documents''"
    "description null_description_task = Some Null"
    by (simp_all add: null_description_task_def stringify_def trim_padded)
  from post_valid[OF described_valid(1), of "''t0''" initializeTables]
  have p: "post accepts_sample_date ''t0'' null_description_task initializeTables =
     (\<lparr>code = 201, success = True,
        data = Some (Obj [(''id'', JNum 1), (''title'', JStr ''Review case documents''),
                          (''description'', JNull),
                          (''status'', JStr ''pending''), (''due_date'', JStr sample_date)]),
        count_field = None, message = Some ''Task created successfully'', error = None,
        details = None\<rparr>,
       \<lparr>rows = [\<lparr>row_id = 1, row_title = ''Review case documents'', row_description = None,
                 row_status = ''pending'', row_due_date = sample_date, created_at = ''t0'',
                 updated_at = ''t0''\<rparr>],
        sqlite_sequence = 1, executed = [INSERT]\<rparr>)"
    by (auto simp: Let_def t initializeTables_def max_rowid_def bound_def of_nullable_def
          null_description_task_def stringify_def trim_padded)
  show ?thesis
    unfolding p
    by (simp add: described_valid t field_def isInt_1 get_by_id_valid row_object_def of_nullable_def)
qed

end
